theory Spec2Isabelle
  imports Main "HOL-Library.Sublist" "HOL-Library.Word"
begin

section \<open>Data model of \<open>streamlit_app.py\<close>\<close>

text \<open>
  The program is one Streamlit page. Each user interaction re-runs \<open>main\<close> from the top;
  only \<open>st.session_state\<close> survives from one run to the next. Everything the page does
  beyond state management is delegated to third-party libraries (the generative-model SDK,
  gspread, PyPDF2, json). Those libraries are not part of the repository, so they are taken
  as parameters of the model (record \<open>env\<close> below): every theorem holds for every behaviour
  they may show, success or exception.
\<close>

type_synonym bytes = "8 word list"

text \<open>
  An instance of Python's \<open>Exception\<close>; the string is what \<open>f"{e}"\<close> prints. All handlers
  of the program are \<open>except Exception\<close>.
\<close>

datatype exn = Exception string

fun message :: "exn \<Rightarrow> string" where
  "message (Exception m) = m"

text \<open>The object \<open>st.file_uploader\<close> returns: its name, its MIME type and its bytes.\<close>

record upload =
  name :: string
  type :: string
  getvalue :: bytes

text \<open>A page of a parsed PDF; \<open>extract_text\<close> is what the method of that name does.\<close>

datatype page = Page (extract_text: "exn + string")

text \<open>What \<open>json.load\<close> produces, and Python's truth value of it.\<close>

datatype json =
    JNull
  | JBool bool
  | JInt int
  | JFloat int int
  | JStr string
  | JArr "json list"
  | JObj "(string \<times> json) list"

fun truthy :: "json \<Rightarrow> bool" where
  "truthy JNull = False"
| "truthy (JBool b) = b"
| "truthy (JInt i) = (i \<noteq> 0)"
| "truthy (JFloat m e) = (m \<noteq> 0)"
| "truthy (JStr s) = (s \<noteq> [])"
| "truthy (JArr xs) = (xs \<noteq> [])"
| "truthy (JObj kvs) = (kvs \<noteq> [])"

text \<open>A chat turn, \<open>{"role": r, "parts": [t]}\<close>.\<close>

record turn =
  role :: string
  parts :: "string list"

text \<open>Handles of the objects the libraries return.\<close>

datatype model = Model nat
datatype chat = Chat nat
datatype client = Client nat
datatype spreadsheet = Spreadsheet nat
datatype worksheet = Worksheet nat

text \<open>
  The response of the model. \<open>text\<close> is what reading the property \<open>response.text\<close>
  does: it gives the text, or raises when the response holds none (a blocked prompt).
\<close>

record response =
  "text" :: "exn + string"

text \<open>
  The libraries. The local, deterministic ones (decoding, PDF and JSON parsing) are functions
  of their input. The remote ones take in addition the number of remote calls the run has
  made so far, so that the same request may be answered differently at different moments
  of one run.
\<close>

record env =
  decode_utf8 :: "bytes \<Rightarrow> exn + string"
  PdfReader :: "bytes \<Rightarrow> exn + page list"
  json_load :: "bytes \<Rightarrow> exn + json"
  configure :: "nat \<Rightarrow> string \<Rightarrow> exn + unit"
  GenerativeModel :: "nat \<Rightarrow> string \<Rightarrow> exn + model"
  generate_content :: "nat \<Rightarrow> model \<Rightarrow> string \<Rightarrow> exn + response"
  start_chat :: "nat \<Rightarrow> model \<Rightarrow> turn list \<Rightarrow> exn + chat"
  send_message :: "nat \<Rightarrow> chat \<Rightarrow> string \<Rightarrow> exn + response"
  service_account_from_dict :: "nat \<Rightarrow> json \<Rightarrow> exn + client"
  open_spreadsheet :: "nat \<Rightarrow> client \<Rightarrow> string \<Rightarrow> exn + spreadsheet"
  open_worksheet :: "nat \<Rightarrow> spreadsheet \<Rightarrow> string \<Rightarrow> exn + worksheet"
  append_row :: "nat \<Rightarrow> worksheet \<Rightarrow> string list \<Rightarrow> exn + unit"

section \<open>\<open>get_file_content\<close>\<close>

text \<open>Python's \<open>sub in s\<close> on strings.\<close>

fun py_in :: "string \<Rightarrow> string \<Rightarrow> bool" where
  "py_in sub [] = (sub = [])"
| "py_in sub (c # cs) = (prefix sub (c # cs) \<or> py_in sub cs)"

text \<open>
  The loop \<open>for page_num in range(len(pdf_reader.pages)): text += ...extract_text()\<close>,
  from index \<open>page_num\<close> on; \<open>acc\<close> is the variable \<open>text\<close> of the source.
\<close>

function pages_loop :: "page list \<Rightarrow> nat \<Rightarrow> string \<Rightarrow> exn + string" where
  "pages_loop pages page_num acc =
     (if page_num < length pages then
        (case extract_text (pages ! page_num) of
           Inl e \<Rightarrow> Inl e
         | Inr t \<Rightarrow> pages_loop pages (Suc page_num) (acc @ t))
      else Inr acc)"
  by pat_completeness auto
termination
  by (relation "measure (\<lambda>(pages, page_num, acc). length pages - page_num)") auto

declare pages_loop.simps [simp del]

definition get_file_content :: "env \<Rightarrow> upload \<Rightarrow> exn + string" where
  "get_file_content env uploaded_file =
     (let file_type = type uploaded_file in
      if py_in ''text'' file_type \<or> py_in ''markdown'' file_type then
        decode_utf8 env (getvalue uploaded_file)
      else if py_in ''pdf'' file_type then
        (case PdfReader env (getvalue uploaded_file) of
           Inl e \<Rightarrow> Inl e
         | Inr pages \<Rightarrow> pages_loop pages 0 [])
      else Inr ''Unsupported file type.'')"

section \<open>State, effects and exceptions\<close>

text \<open>
  \<open>st.session_state\<close> as a run finds it: each of the four keys may still be absent.
\<close>

record stored_session =
  stored_gemini_api_key :: "string option"
  stored_chat_history :: "turn list option"
  stored_document_content :: "string option"
  stored_google_sheet_credentials :: "json option"

text \<open>What a run writes to the page, in order.\<close>

datatype ui_msg =
    Title string
  | Success string
  | Warning string
  | Error string
  | Subheader string
  | Write string
  | Spinner string
  | Sidebar_subheader string
  | Sidebar_success string
  | Sidebar_info string
  | Chat_message string
  | Markdown string

text \<open>
  The calls a run makes to the generative-model SDK and to gspread, what each of them
  returned, and the log of a run: every call with its outcome (\<open>Inl e\<close>: it raised \<open>e\<close>),
  in order.
\<close>

datatype call =
    Configure string
  | NewModel string
  | GenerateContent string
  | StartChat "turn list"
  | SendMessage string
  | ServiceAccountFromDict json
  | OpenSpreadsheet string
  | OpenWorksheet string
  | AppendRow "string list"

datatype reply =
    Done
  | GotModel model
  | GotResponse response
  | GotChat chat
  | GotClient client
  | GotSpreadsheet spreadsheet
  | GotWorksheet worksheet

type_synonym event = "call \<times> (exn + reply)"

text \<open>
  The state of a run: the four session keys (all present once lines 38-45 have run; Python's
  \<open>None\<close> is \<open>JNull\<close>), what has been displayed and which remote calls have been made.
\<close>

record state =
  gemini_api_key :: string
  chat_history :: "turn list"
  document_content :: string
  google_sheet_credentials :: json
  display :: "ui_msg list"
  calls :: "event list"

text \<open>A statement: it runs on a state and either completes with a value or raises.\<close>

type_synonym 'a prog = "state \<Rightarrow> (exn + 'a) \<times> state"

definition ret :: "'a \<Rightarrow> 'a prog" where
  "ret x s = (Inr x, s)"

definition raise :: "exn \<Rightarrow> 'a prog" where
  "raise e s = (Inl e, s)"

definition bnd :: "'a prog \<Rightarrow> ('a \<Rightarrow> 'b prog) \<Rightarrow> 'b prog" where
  "bnd m f s = (case m s of (Inl e, s') \<Rightarrow> (Inl e, s') | (Inr x, s') \<Rightarrow> f x s')"

text \<open>\<open>try: m  except Exception as e: h e\<close>\<close>

definition try_except :: "'a prog \<Rightarrow> (exn \<Rightarrow> 'a prog) \<Rightarrow> 'a prog" where
  "try_except m h s = (case m s of (Inl e, s') \<Rightarrow> h e s' | (Inr x, s') \<Rightarrow> (Inr x, s'))"

text \<open>The outcome of a local library call.\<close>

definition lift :: "exn + 'a \<Rightarrow> 'a prog" where
  "lift r s = (r, s)"

text \<open>A call \<open>st.title\<close>, \<open>st.error\<close>, ...: it adds to the page.\<close>

definition st :: "ui_msg \<Rightarrow> unit prog" where
  "st m s = (Inr (), s\<lparr>display := display s @ [m]\<rparr>)"

text \<open>
  A remote call: the library answers it, knowing how many remote calls came before, and the
  call is logged with its outcome.
\<close>

definition remote :: "call \<Rightarrow> ('a \<Rightarrow> reply) \<Rightarrow> (nat \<Rightarrow> exn + 'a) \<Rightarrow> 'a prog" where
  "remote c wrap f s =
     (let r = f (length (calls s)) in
      (r, s\<lparr>calls := calls s @ [(c, case r of Inl e \<Rightarrow> Inl e | Inr x \<Rightarrow> Inr (wrap x))]\<rparr>))"

section \<open>\<open>get_gemini_model\<close> and \<open>save_to_google_sheet\<close>\<close>

definition get_gemini_model :: "env \<Rightarrow> string \<Rightarrow> model prog" where
  "get_gemini_model env api_key =
     bnd (remote (Configure api_key) (\<lambda>_. Done) (\<lambda>n. configure env n api_key)) (\<lambda>_.
     remote (NewModel ''gemini-pro'') GotModel (\<lambda>n. GenerativeModel env n ''gemini-pro''))"

definition save_to_google_sheet ::
  "env \<Rightarrow> string list \<Rightarrow> string \<Rightarrow> string \<Rightarrow> json \<Rightarrow> unit prog" where
  "save_to_google_sheet env data sheet_name worksheet_name credentials_json =
     try_except
       (bnd (remote (ServiceAccountFromDict credentials_json) GotClient
               (\<lambda>n. service_account_from_dict env n credentials_json)) (\<lambda>gc.
        bnd (remote (OpenSpreadsheet sheet_name) GotSpreadsheet
               (\<lambda>n. open_spreadsheet env n gc sheet_name)) (\<lambda>sh.
        bnd (remote (OpenWorksheet worksheet_name) GotWorksheet
               (\<lambda>n. open_worksheet env n sh worksheet_name)) (\<lambda>worksheet.
        bnd (remote (AppendRow data) (\<lambda>_. Done) (\<lambda>n. append_row env n worksheet data)) (\<lambda>_.
        st (Success (''Data saved to Google Sheet '' @ [CHR 0x27] @ sheet_name @ [CHR 0x27]
              @ '' (worksheet '' @ [CHR 0x27] @ worksheet_name @ [CHR 0x27] @ '')'')))))))
       (\<lambda>e. st (Error (''Error saving to Google Sheet: '' @ message e)))"

section \<open>\<open>main\<close>\<close>

text \<open>
  What the widgets of the page return in one run. A widget that the run does not reach is
  not read. \<open>None\<close> is an uploader without a file.
\<close>

record ui =
  gemini_api_key_input :: string
  credentials_file :: "upload option"
  google_sheet_name :: string
  analysis_worksheet_name :: string
  questions_worksheet_name :: string
  uploaded_file :: "upload option"
  propose_button :: bool
  quiz_button :: bool
  user_question :: string

text \<open>Lines 38-45: a key that is absent gets its default.\<close>

definition init_session :: "stored_session \<Rightarrow> state" where
  "init_session ss =
     \<lparr>gemini_api_key = (case stored_gemini_api_key ss of None \<Rightarrow> [] | Some k \<Rightarrow> k),
      chat_history = (case stored_chat_history ss of None \<Rightarrow> [] | Some h \<Rightarrow> h),
      document_content = (case stored_document_content ss of None \<Rightarrow> [] | Some d \<Rightarrow> d),
      google_sheet_credentials =
        (case stored_google_sheet_credentials ss of None \<Rightarrow> JNull | Some c \<Rightarrow> c),
      display = [], calls = []\<rparr>"

text \<open>The session a run leaves behind for the next one.\<close>

definition stored :: "state \<Rightarrow> stored_session" where
  "stored s =
     \<lparr>stored_gemini_api_key = Some (gemini_api_key s),
      stored_chat_history = Some (chat_history s),
      stored_document_content = Some (document_content s),
      stored_google_sheet_credentials = Some (google_sheet_credentials s)\<rparr>"

text \<open>
  \<open>uploaded_file.name\<close>, where \<open>uploaded_file\<close> may be \<open>None\<close>: Python then raises an
  AttributeError with this message.
\<close>

definition no_name_message :: string where
  "no_name_message =
     [CHR 0x27] @ ''NoneType'' @ [CHR 0x27] @ '' object has no attribute ''
     @ [CHR 0x27] @ ''name'' @ [CHR 0x27]"

definition attr_name :: "upload option \<Rightarrow> string prog" where
  "attr_name f =
     (case f of
        None \<Rightarrow> raise (Exception no_name_message)
      | Some u \<Rightarrow> ret (name u))"

definition newline :: string where
  "newline = [CHR 0x0A]"

definition summary_prompt :: "string \<Rightarrow> string" where
  "summary_prompt doc = ''Summarize the following document:'' @ newline @ newline @ doc"

definition analysis_prompt :: "string \<Rightarrow> string" where
  "analysis_prompt doc =
     ''Based on the following document content, propose relevant statistical analysis methods and why they are suitable:''
     @ newline @ newline @ doc"

definition quiz_prompt :: "string \<Rightarrow> string" where
  "quiz_prompt doc =
     ''Generate a multiple-choice quiz with answers based on the following document content:''
     @ newline @ newline @ doc"

definition chat_prompt :: "string \<Rightarrow> string \<Rightarrow> string" where
  "chat_prompt doc question =
     ''Document content: '' @ doc @ newline @ newline @ ''User question: '' @ question"

text \<open>Lines 59-63.\<close>

definition load_credentials :: "env \<Rightarrow> ui \<Rightarrow> unit prog" where
  "load_credentials env u =
     bnd (st (Sidebar_subheader ''Google Sheet Integration'')) (\<lambda>_.
     (case credentials_file u of
        Some f \<Rightarrow>
          bnd (lift (json_load env (getvalue f))) (\<lambda>j.
          bnd (\<lambda>s. (Inr (), s\<lparr>google_sheet_credentials := j\<rparr>)) (\<lambda>_.
          st (Sidebar_success ''Google Sheet credentials loaded!'')))
      | None \<Rightarrow>
          st (Sidebar_info ''Upload a service account key JSON for Google Sheet integration. Instructions: https://docs.gspread.org/en/latest/oauth2setup.html#service-account'')))"

text \<open>Lines 72-84; line 79 shows the heading before line 80 reads \<open>response.text\<close>.\<close>

definition process_upload :: "env \<Rightarrow> ui \<Rightarrow> unit prog" where
  "process_upload env u s =
     (case uploaded_file u of
        None \<Rightarrow> ret () s
      | Some f \<Rightarrow>
          if document_content s = [] then
            bnd (st (Spinner ''Processing file...'')) (\<lambda>_.
            bnd (lift (get_file_content env f)) (\<lambda>content.
            bnd (\<lambda>s. (Inr (), s\<lparr>document_content := content\<rparr>)) (\<lambda>_ s1.
              if document_content s1 \<noteq> ''Unsupported file type.'' then
                try_except
                  (bnd (get_gemini_model env (gemini_api_key s1)) (\<lambda>model.
                   bnd (remote (GenerateContent (summary_prompt (document_content s1))) GotResponse
                          (\<lambda>n. generate_content env n model
                                 (summary_prompt (document_content s1)))) (\<lambda>response.
                   bnd (st (Subheader ''Document Summary:'')) (\<lambda>_.
                   bnd (lift (text response)) (\<lambda>summary.
                   st (Write summary))))))
                  (\<lambda>e. st (Error (''Error summarizing document: '' @ message e))) s1
              else st (Error (document_content s1)) s1))) s
          else ret () s)"

text \<open>Lines 89-99.\<close>

definition propose_analysis :: "env \<Rightarrow> ui \<Rightarrow> unit prog" where
  "propose_analysis env u =
     (if propose_button u then
        bnd (st (Spinner ''Generating statistical analysis proposals...'')) (\<lambda>_.
        try_except
          (\<lambda>s.
             (bnd (get_gemini_model env (gemini_api_key s)) (\<lambda>model.
              bnd (remote (GenerateContent (analysis_prompt (document_content s))) GotResponse
                     (\<lambda>n. generate_content env n model
                            (analysis_prompt (document_content s)))) (\<lambda>response.
              bnd (st (Subheader ''Statistical Analysis Proposals:'')) (\<lambda>_.
              bnd (lift (text response)) (\<lambda>proposals.
              bnd (st (Write proposals)) (\<lambda>_.
              if truthy (google_sheet_credentials s) \<and> google_sheet_name u \<noteq> []
                 \<and> analysis_worksheet_name u \<noteq> [] then
                bnd (attr_name (uploaded_file u)) (\<lambda>file_name.
                bnd (lift (text response)) (\<lambda>logged.
                save_to_google_sheet env
                  [file_name, ''Analysis Proposal'', logged]
                  (google_sheet_name u) (analysis_worksheet_name u)
                  (google_sheet_credentials s)))
              else ret ())))))) s)
          (\<lambda>e. st (Error (''Error generating statistical analysis proposals: ''
                           @ message e))))
      else ret ())"

text \<open>Lines 101-109.\<close>

definition generate_quiz :: "env \<Rightarrow> ui \<Rightarrow> unit prog" where
  "generate_quiz env u =
     (if quiz_button u then
        bnd (st (Spinner ''Generating quiz...'')) (\<lambda>_.
        try_except
          (\<lambda>s.
             (bnd (get_gemini_model env (gemini_api_key s)) (\<lambda>model.
              bnd (remote (GenerateContent (quiz_prompt (document_content s))) GotResponse
                     (\<lambda>n. generate_content env n model
                            (quiz_prompt (document_content s)))) (\<lambda>response.
              bnd (st (Subheader ''Quiz:'')) (\<lambda>_.
              bnd (lift (text response)) (\<lambda>quiz.
              st (Write quiz)))))) s)
          (\<lambda>e. st (Error (''Error generating quiz: '' @ message e))))
      else ret ())"

text \<open>Lines 127-129; \<open>message["parts"][0]\<close> raises on an empty list.\<close>

fun show_messages :: "turn list \<Rightarrow> unit prog" where
  "show_messages [] s = ret () s"
| "show_messages (m # ms) s =
     bnd (st (Chat_message (role m))) (\<lambda>_.
     bnd (case parts m of
            [] \<Rightarrow> raise (Exception ''list index out of range'')
          | p # _ \<Rightarrow> st (Markdown p)) (\<lambda>_.
     show_messages ms)) s"

definition append_turn :: "turn \<Rightarrow> unit prog" where
  "append_turn t s = (Inr (), s\<lparr>chat_history := chat_history s @ [t]\<rparr>)"

text \<open>
  Lines 118-125: the exchange with the chat and its handler. Line 120 appends the user turn
  before line 121 reads \<open>response.text\<close> for the model turn.
\<close>

definition chat_exchange :: "env \<Rightarrow> ui \<Rightarrow> chat \<Rightarrow> unit prog" where
  "chat_exchange env u chat =
     try_except
       (bnd (\<lambda>s. remote (SendMessage (chat_prompt (document_content s) (user_question u)))
                   GotResponse
                   (\<lambda>n. send_message env n chat
                          (chat_prompt (document_content s) (user_question u))) s)
          (\<lambda>response.
        bnd (append_turn \<lparr>role = ''user'', parts = [user_question u]\<rparr>) (\<lambda>_.
        bnd (lift (text response)) (\<lambda>answer.
        bnd (append_turn \<lparr>role = ''model'', parts = [answer]\<rparr>) (\<lambda>_ s.
        if truthy (google_sheet_credentials s) \<and> google_sheet_name u \<noteq> []
           \<and> questions_worksheet_name u \<noteq> [] then
          bnd (attr_name (uploaded_file u)) (\<lambda>file_name.
          bnd (lift (text response)) (\<lambda>logged.
          save_to_google_sheet env
            [file_name, user_question u, logged]
            (google_sheet_name u) (questions_worksheet_name u)
            (google_sheet_credentials s))) s
        else ret () s)))))
       (\<lambda>e. st (Error (''Error communicating with Gemini: '' @ message e)))"

text \<open>Lines 111-129.\<close>

definition ask_question :: "env \<Rightarrow> ui \<Rightarrow> unit prog" where
  "ask_question env u =
     bnd (st (Subheader ''Ask a question about the document or statistical analysis:'')) (\<lambda>_.
     if user_question u \<noteq> [] then
       bnd (\<lambda>s. get_gemini_model env (gemini_api_key s) s) (\<lambda>model.
       bnd (\<lambda>s. remote (StartChat (chat_history s)) GotChat
                  (\<lambda>n. start_chat env n model (chat_history s)) s) (\<lambda>chat.
       bnd (chat_exchange env u chat) (\<lambda>_ s.
       show_messages (chat_history s) s)))
     else ret ())"

text \<open>Lines 86-129: the tools are there only when a document is stored.\<close>

definition document_tools :: "env \<Rightarrow> ui \<Rightarrow> unit prog" where
  "document_tools env u s =
     (if document_content s \<noteq> [] then
        bnd (propose_analysis env u) (\<lambda>_.
        bnd (generate_quiz env u) (\<lambda>_.
        ask_question env u)) s
      else ret () s)"

text \<open>
  A run of the page on the session it finds. The result is how the run ended (\<open>Inl e\<close>: the
  exception \<open>e\<close> left \<open>main\<close>) and the state it reached; the session part of that state
  is what the next run finds, however this one ended. The title of line 36 and the defaults
  of lines 38-45 do not depend on each other; the state starts from the defaults.
\<close>

definition main :: "env \<Rightarrow> ui \<Rightarrow> stored_session \<Rightarrow> (exn + unit) \<times> state" where
  "main env u ss =
     bnd (st (Title ''Chatbot for Document Q&A and Statistical Analysis'')) (\<lambda>_ s.
       if gemini_api_key_input u \<noteq> [] then
         bnd (\<lambda>s. (Inr (), s\<lparr>gemini_api_key := gemini_api_key_input u\<rparr>)) (\<lambda>_.
         bnd (st (Success ''Gemini API Key set!'')) (\<lambda>_.
         bnd (load_credentials env u) (\<lambda>_.
         bnd (process_upload env u) (\<lambda>_.
         document_tools env u)))) s
       else
         st (Warning ''Please enter your Gemini API Key to proceed.'') s)
       (init_session ss)"

section \<open>Reading the log of a run\<close>

text \<open>
  The operations the calls stand for. The three requests to \<open>generate_content\<close> differ by
  the prompt they start with; building a client or a model and opening a chat are set-up.
\<close>

datatype operation =
    Setup
  | Summarization
  | AnalysisProposal
  | QuizGeneration
  | OtherGeneration
  | ChatSend
  | SheetOpen
  | WorksheetOpen
  | RowAppend

fun operation_of :: "call \<Rightarrow> operation" where
  "operation_of (Configure k) = Setup"
| "operation_of (NewModel m) = Setup"
| "operation_of (GenerateContent p) =
     (if prefix ''Summarize the following document:'' p then Summarization
      else if prefix ''Based on the following document content, propose relevant statistical analysis methods and why they are suitable:'' p
      then AnalysisProposal
      else if prefix ''Generate a multiple-choice quiz with answers based on the following document content:'' p
      then QuizGeneration
      else OtherGeneration)"
| "operation_of (StartChat h) = Setup"
| "operation_of (SendMessage p) = ChatSend"
| "operation_of (ServiceAccountFromDict j) = Setup"
| "operation_of (OpenSpreadsheet n) = SheetOpen"
| "operation_of (OpenWorksheet n) = WorksheetOpen"
| "operation_of (AppendRow d) = RowAppend"

definition operations :: "event list \<Rightarrow> operation list" where
  "operations evs = map (\<lambda>ev. operation_of (fst ev)) evs"

text \<open>How many times a log invokes an operation.\<close>

definition invocations :: "operation \<Rightarrow> event list \<Rightarrow> nat" where
  "invocations k evs = length (filter (\<lambda>ev. operation_of (fst ev) = k) evs)"

text \<open>The events of a log that invoke an operation.\<close>

definition requests :: "operation \<Rightarrow> event list \<Rightarrow> event list" where
  "requests k evs = filter (\<lambda>ev. operation_of (fst ev) = k) evs"

text \<open>
  A prompt built from the document \<open>doc\<close> (and, for the chat, the question \<open>q\<close>), and a log
  all of whose prompts are.
\<close>

fun built_from :: "string \<Rightarrow> string \<Rightarrow> call \<Rightarrow> bool" where
  "built_from doc q (GenerateContent p) =
     (p = summary_prompt doc \<or> p = analysis_prompt doc \<or> p = quiz_prompt doc)"
| "built_from doc q (SendMessage p) = (p = chat_prompt doc q)"
| "built_from doc q c = True"

definition about :: "string \<Rightarrow> string \<Rightarrow> event list \<Rightarrow> bool" where
  "about doc q evs = list_all (\<lambda>ev. built_from doc q (fst ev)) evs"

text \<open>The calls that raised, with the exception each raised.\<close>

definition failures :: "event list \<Rightarrow> (call \<times> exn) list" where
  "failures evs = concat (map (\<lambda>ev. case snd ev of Inl e \<Rightarrow> [(fst ev, e)] | Inr r \<Rightarrow> []) evs)"

text \<open>The responses the chat has sent back.\<close>

definition chat_responses :: "event list \<Rightarrow> response list" where
  "chat_responses evs =
     concat (map (\<lambda>ev. case ev of (SendMessage p, Inr (GotResponse r)) \<Rightarrow> [r] | _ \<Rightarrow> []) evs)"

text \<open>The two turns of an exchange.\<close>

definition user_turn :: "string \<Rightarrow> turn" where
  "user_turn q = \<lparr>role = ''user'', parts = [q]\<rparr>"

definition model_turn :: "string \<Rightarrow> turn" where
  "model_turn t = \<lparr>role = ''model'', parts = [t]\<rparr>"

text \<open>
  The turns that a response of the chat to the question \<open>q\<close> adds to the history: the
  user turn, and the model turn when the text of the response can be read.
\<close>

definition exchange_turns :: "string \<Rightarrow> response \<Rightarrow> turn list" where
  "exchange_turns q resp =
     (case text resp of
        Inl e \<Rightarrow> [user_turn q]
      | Inr t \<Rightarrow> [user_turn q, model_turn t])"

text \<open>The calls that set the chat up, lines 115-116.\<close>

fun chat_setup :: "call \<Rightarrow> bool" where
  "chat_setup (Configure k) = True"
| "chat_setup (NewModel m) = True"
| "chat_setup (StartChat h) = True"
| "chat_setup c = False"

text \<open>A history whose turns \<open>message["parts"][0]\<close> can read.\<close>

definition readable :: "turn list \<Rightarrow> bool" where
  "readable h = list_all (\<lambda>t. parts t \<noteq> []) h"

text \<open>The two messages of \<open>save_to_google_sheet\<close>.\<close>

definition saved_msg :: "string \<Rightarrow> string \<Rightarrow> ui_msg" where
  "saved_msg sheet_name worksheet_name =
     Success (''Data saved to Google Sheet '' @ [CHR 0x27] @ sheet_name @ [CHR 0x27]
              @ '' (worksheet '' @ [CHR 0x27] @ worksheet_name @ [CHR 0x27] @ '')'')"

definition save_failed_msg :: "exn \<Rightarrow> ui_msg" where
  "save_failed_msg e = Error (''Error saving to Google Sheet: '' @ message e)"

text \<open>
  Whether what a statement adds shows each exception of a remote call: every call that raised
  either made the statement raise that exception, or has its message in an error box.
\<close>

definition caught :: "exn + unit \<Rightarrow> event list \<Rightarrow> ui_msg list \<Rightarrow> bool" where
  "caught r new sh =
     (\<forall>(c, e) \<in> set (failures new). r = Inl e \<or> (\<exists>p. Error (p @ message e) \<in> set sh))"

text \<open>The state of a run after lines 36-51, when the API-key field is filled.\<close>

definition started :: "ui \<Rightarrow> stored_session \<Rightarrow> state" where
  "started u ss =
     (init_session ss)
     \<lparr>gemini_api_key := gemini_api_key_input u,
      display := [Title ''Chatbot for Document Q&A and Statistical Analysis'',
                  Success ''Gemini API Key set!'']\<rparr>"

text \<open>The session of a browser tab that has not run the page yet.\<close>

definition fresh :: stored_session where
  "fresh = \<lparr>stored_gemini_api_key = None, stored_chat_history = None,
            stored_document_content = None, stored_google_sheet_credentials = None\<rparr>"

section \<open>Example inputs\<close>

text \<open>Libraries that always succeed, and three files, one for each branch on the MIME type.\<close>

definition ok_env :: env where
  "ok_env =
     \<lparr>decode_utf8 = (\<lambda>b. Inr ''hello''),
      PdfReader = (\<lambda>b. Inr [Page (Inr ''page one, ''), Page (Inr ''page two'')]),
      json_load = (\<lambda>b. Inr (JObj [(''type'', JStr ''service_account'')])),
      configure = (\<lambda>n k. Inr ()),
      GenerativeModel = (\<lambda>n m. Inr (Model 0)),
      generate_content = (\<lambda>n m p. Inr \<lparr>text = Inr ''generated''\<rparr>),
      start_chat = (\<lambda>n m h. Inr (Chat 0)),
      send_message = (\<lambda>n c p. Inr \<lparr>text = Inr ''reply''\<rparr>),
      service_account_from_dict = (\<lambda>n j. Inr (Client 0)),
      open_spreadsheet = (\<lambda>n c nm. Inr (Spreadsheet 0)),
      open_worksheet = (\<lambda>n sh nm. Inr (Worksheet 0)),
      append_row = (\<lambda>n w d. Inr ())\<rparr>"

definition notes_txt :: upload where
  "notes_txt = \<lparr>name = ''notes.txt'', type = ''text/plain'', getvalue = [0x68, 0x69]\<rparr>"

definition paper_pdf :: upload where
  "paper_pdf = \<lparr>name = ''paper.pdf'', type = ''application/pdf'', getvalue = [0x25, 0x50]\<rparr>"

definition photo_png :: upload where
  "photo_png = \<lparr>name = ''photo.png'', type = ''image/png'', getvalue = [0x89]\<rparr>"

text \<open>Libraries whose remote call number \<open>k\<close> of a run raises, all others succeeding.\<close>

definition fail_at :: "nat \<Rightarrow> env" where
  "fail_at k =
     ok_env
     \<lparr>configure := (\<lambda>n key. if n = k then Inl (Exception ''boom'') else Inr ()),
      GenerativeModel := (\<lambda>n m. if n = k then Inl (Exception ''boom'') else Inr (Model 0)),
      generate_content :=
        (\<lambda>n m p. if n = k then Inl (Exception ''boom'') else Inr \<lparr>text = Inr ''generated''\<rparr>),
      start_chat := (\<lambda>n m h. if n = k then Inl (Exception ''boom'') else Inr (Chat 0)),
      send_message :=
        (\<lambda>n c p. if n = k then Inl (Exception ''boom'') else Inr \<lparr>text = Inr ''reply''\<rparr>),
      service_account_from_dict :=
        (\<lambda>n j. if n = k then Inl (Exception ''boom'') else Inr (Client 0)),
      open_spreadsheet :=
        (\<lambda>n c nm. if n = k then Inl (Exception ''boom'') else Inr (Spreadsheet 0)),
      open_worksheet :=
        (\<lambda>n sh nm. if n = k then Inl (Exception ''boom'') else Inr (Worksheet 0)),
      append_row := (\<lambda>n w d. if n = k then Inl (Exception ''boom'') else Inr ())\<rparr>"

definition key_json :: json where
  "key_json = JObj [(''type'', JStr ''service_account'')]"

definition key_file :: upload where
  "key_file = \<lparr>name = ''key.json'', type = ''application/json'', getvalue = [0x7B, 0x7D]\<rparr>"

text \<open>A state in the middle of a run, with a document and credentials.\<close>

definition midway :: state where
  "midway = \<lparr>gemini_api_key = ''k'', chat_history = [], document_content = ''hello'',
             google_sheet_credentials = key_json, display = [], calls = []\<rparr>"

text \<open>
  The widgets of a first visit: key and credentials given, a sheet named, a text file
  uploaded, no button pressed and no question asked. The other examples vary it.
\<close>

definition visit :: ui where
  "visit =
     \<lparr>gemini_api_key_input = ''k'',
      credentials_file = Some key_file,
      google_sheet_name = ''Log'',
      analysis_worksheet_name = ''Analysis'',
      questions_worksheet_name = ''Questions'',
      uploaded_file = Some notes_txt,
      propose_button = False,
      quiz_button = False,
      user_question = []\<rparr>"

text \<open>The session that first visit leaves behind, with \<open>ok_env\<close>.\<close>

definition visited :: stored_session where
  "visited = stored (snd (main ok_env visit fresh))"

text \<open>
  Libraries whose model answers every request with a response that holds no text, all else
  succeeding.
\<close>

definition blocked_env :: env where
  "blocked_env =
     ok_env
     \<lparr>generate_content := (\<lambda>n m p. Inr \<lparr>text = Inl (Exception ''no valid Part'')\<rparr>),
      send_message := (\<lambda>n c p. Inr \<lparr>text = Inl (Exception ''no valid Part'')\<rparr>)\<rparr>"

text \<open>Libraries whose JSON parser rejects the credentials file, all else succeeding.\<close>

definition bad_json_env :: env where
  "bad_json_env = ok_env\<lparr>json_load := (\<lambda>b. Inl (Exception ''Expecting value''))\<rparr>"

text \<open>Libraries whose UTF-8 decoder rejects the bytes of the file, all else succeeding.\<close>

definition bad_utf8_env :: env where
  "bad_utf8_env = ok_env\<lparr>decode_utf8 := (\<lambda>b. Inl (Exception ''invalid start byte''))\<rparr>"

section \<open>File-content extraction\<close>

text \<open>\<open>py_in\<close> is containment as a contiguous substring.\<close>

lemma py_in_sublist: "py_in sub s = sublist sub s"
  by (induction s) (auto simp: sublist_Cons_right)

text \<open>When every page yields its text, the loop returns the texts joined in page order.\<close>

lemma pages_loop_all:
  "map extract_text pages = map Inr texts \<Longrightarrow> page_num \<le> length pages \<Longrightarrow>
   pages_loop pages page_num acc = Inr (acc @ concat (drop page_num texts))"
proof (induction pages page_num acc rule: pages_loop.induct)
  case (1 pages page_num acc)
  have len: "length texts = length pages"
    using "1.prems"(1) by (metis length_map)
  show ?case
  proof (cases "page_num < length pages")
    case True
    have "extract_text (pages ! page_num) = Inr (texts ! page_num)"
      using "1.prems"(1) True len by (metis nth_map)
    moreover have "drop page_num texts = texts ! page_num # drop (Suc page_num) texts"
      using True len by (simp add: Cons_nth_drop_Suc)
    ultimately show ?thesis
      using "1.IH" [of "texts ! page_num"] "1.prems" True
      by (subst pages_loop.simps) simp
  next
    case False
    then show ?thesis
      using "1.prems" len by (subst pages_loop.simps) simp
  qed
qed

text \<open>
  Claim C1. \<open>get_file_content\<close> is a case analysis on the MIME type of the file, the first
  case that applies being taken: a type that contains "text" or "markdown" gives the bytes
  decoded as UTF-8 (whatever the decoder answers); otherwise a type that contains "pdf" gives
  the texts of the pages of the parsed PDF, joined in page order; any other type gives the
  string "Unsupported file type.".
\<close>

theorem get_file_content_cases:
  "(sublist ''text'' (type f) \<or> sublist ''markdown'' (type f) \<longrightarrow>
      get_file_content env f = decode_utf8 env (getvalue f))
   \<and> (\<not> sublist ''text'' (type f) \<and> \<not> sublist ''markdown'' (type f)
        \<and> sublist ''pdf'' (type f)
        \<and> PdfReader env (getvalue f) = Inr pages
        \<and> map extract_text pages = map Inr texts \<longrightarrow>
      get_file_content env f = Inr (concat texts))
   \<and> (\<not> sublist ''text'' (type f) \<and> \<not> sublist ''markdown'' (type f)
        \<and> \<not> sublist ''pdf'' (type f) \<longrightarrow>
      get_file_content env f = Inr ''Unsupported file type.'')"
  using pages_loop_all [of pages texts 0 "[]"]
  by (simp add: get_file_content_def py_in_sublist)

theorem get_file_content_cases_witness:
  "sublist ''text'' (type notes_txt)
   \<and> get_file_content ok_env notes_txt = Inr ''hello''
   \<and> \<not> sublist ''text'' (type paper_pdf) \<and> \<not> sublist ''markdown'' (type paper_pdf)
   \<and> sublist ''pdf'' (type paper_pdf)
   \<and> get_file_content ok_env paper_pdf = Inr ''page one, page two''
   \<and> \<not> sublist ''text'' (type photo_png) \<and> \<not> sublist ''markdown'' (type photo_png)
   \<and> \<not> sublist ''pdf'' (type photo_png)
   \<and> get_file_content ok_env photo_png = Inr ''Unsupported file type.''"
proof -
  have t: "sublist ''text'' (type notes_txt)"
    by (simp add: py_in_sublist [symmetric] notes_txt_def)
  have p: "\<not> sublist ''text'' (type paper_pdf)" "\<not> sublist ''markdown'' (type paper_pdf)"
    "sublist ''pdf'' (type paper_pdf)"
    by (simp_all add: py_in_sublist [symmetric] paper_pdf_def)
  have q: "\<not> sublist ''text'' (type photo_png)" "\<not> sublist ''markdown'' (type photo_png)"
    "\<not> sublist ''pdf'' (type photo_png)"
    by (simp_all add: py_in_sublist [symmetric] photo_png_def)
  have r: "PdfReader ok_env (getvalue paper_pdf)
             = Inr [Page (Inr ''page one, ''), Page (Inr ''page two'')]"
    "map extract_text [Page (Inr ''page one, ''), Page (Inr ''page two'')]
             = map Inr [''page one, '', ''page two'']"
    "decode_utf8 ok_env (getvalue notes_txt) = Inr ''hello''"
    by (simp_all add: ok_env_def)
  show ?thesis
    using get_file_content_cases [of notes_txt ok_env] t
      get_file_content_cases [of paper_pdf ok_env
        "[Page (Inr ''page one, ''), Page (Inr ''page two'')]"
        "[''page one, '', ''page two'']"] p r
      get_file_content_cases [of photo_png ok_env] q
    by simp
qed

section \<open>Reasoning about statements\<close>

lemmas prog_defs = bnd_def try_except_def ret_def raise_def lift_def st_def remote_def

lemma operation_of_prompts [simp]:
  "operation_of (GenerateContent (summary_prompt d)) = Summarization"
  "operation_of (GenerateContent (analysis_prompt d)) = AnalysisProposal"
  "operation_of (GenerateContent (quiz_prompt d)) = QuizGeneration"
  by (simp_all add: summary_prompt_def analysis_prompt_def quiz_prompt_def)

declare operation_of.simps(3) [simp del]

lemma operations_simps [simp]:
  "operations [] = []"
  "operations (ev # evs) = operation_of (fst ev) # operations evs"
  "operations (xs @ ys) = operations xs @ operations ys"
  by (simp_all add: operations_def)

lemma chat_responses_simps [simp]:
  "chat_responses [] = []"
  "chat_responses (xs @ ys) = chat_responses xs @ chat_responses ys"
  "chat_responses ((SendMessage p, Inr (GotResponse resp)) # evs) = resp # chat_responses evs"
  "chat_responses ((SendMessage p, Inl e) # evs) = chat_responses evs"
  "chat_responses ((Configure k, x) # evs) = chat_responses evs"
  "chat_responses ((NewModel nm, x) # evs) = chat_responses evs"
  "chat_responses ((StartChat h, x) # evs) = chat_responses evs"
  "chat_responses ((GenerateContent p, x) # evs) = chat_responses evs"
  "chat_responses ((ServiceAccountFromDict j, x) # evs) = chat_responses evs"
  "chat_responses ((OpenSpreadsheet n, x) # evs) = chat_responses evs"
  "chat_responses ((OpenWorksheet n, x) # evs) = chat_responses evs"
  "chat_responses ((AppendRow d, x) # evs) = chat_responses evs"
  by (simp_all add: chat_responses_def)

lemma failures_simps [simp]:
  "failures [] = []"
  "failures (xs @ ys) = failures xs @ failures ys"
  "failures ((c, Inl e) # evs) = (c, e) # failures evs"
  "failures ((c, Inr x) # evs) = failures evs"
  by (simp_all add: failures_def)

lemma about_simps [simp]:
  "about doc q []"
  "about doc q (ev # evs) = (built_from doc q (fst ev) \<and> about doc q evs)"
  "about doc q (xs @ ys) = (about doc q xs \<and> about doc q ys)"
  by (simp_all add: about_def)

lemma caught_simps [simp]:
  "caught r [] sh"
  "caught r ((c, Inr x) # new) sh = caught r new sh"
  "caught r ((c, Inl e) # new) sh
     = ((r = Inl e \<or> (\<exists>p. Error (p @ message e) \<in> set sh)) \<and> caught r new sh)"
  by (auto simp: caught_def)

lemma caught_weaken:
  "caught (Inr ()) new sh \<Longrightarrow> set sh \<subseteq> set sh' \<Longrightarrow> caught r new sh'"
  by (fastforce simp: caught_def)

lemma caught_more [simp]:
  "caught (Inr ()) new sh \<Longrightarrow> caught r new (m # sh @ sh2)"
  "caught (Inr ()) new sh \<Longrightarrow> caught r new (sh @ sh2)"
  "caught (Inr ()) new sh \<Longrightarrow> caught r new (sh1 @ sh)"
  by (erule caught_weaken, auto)+

lemma caught_append:
  "caught (Inr ()) a sa \<Longrightarrow> caught r b sb \<Longrightarrow> caught r (a @ b) (sa @ sb)"
  by (fastforce simp: caught_def)

lemma init_session_empty [simp]:
  "display (init_session ss) = []" "calls (init_session ss) = []"
  by (simp_all add: init_session_def)

lemma started_simps [simp]:
  "chat_history (started u ss) = chat_history (init_session ss)"
  "document_content (started u ss) = document_content (init_session ss)"
  "google_sheet_credentials (started u ss) = google_sheet_credentials (init_session ss)"
  "gemini_api_key (started u ss) = gemini_api_key_input u"
  "calls (started u ss) = []"
  "display (started u ss) = [Title ''Chatbot for Document Q&A and Statistical Analysis'',
                            Success ''Gemini API Key set!'']"
  by (simp_all add: started_def)

section \<open>What each part of the page does\<close>

text \<open>
  One lemma for each part: which session keys it leaves alone, how it can end, and what it
  adds to the log (\<open>new\<close>) and to the page (\<open>sh\<close>).
\<close>

lemma save_effect:
  "save_to_google_sheet env data sn wn cred s = (r, s') \<Longrightarrow>
   r = Inr () \<and> chat_history s' = chat_history s \<and> document_content s' = document_content s
   \<and> gemini_api_key s' = gemini_api_key s
   \<and> google_sheet_credentials s' = google_sheet_credentials s
   \<and> (\<exists>new sh. calls s' = calls s @ new \<and> display s' = display s @ sh
        \<and> prefix (operations new) [Setup, SheetOpen, WorksheetOpen, RowAppend]
        \<and> chat_responses new = []
        \<and> caught (Inr ()) new sh
        \<and> Subheader ''Document Summary:'' \<notin> set sh
        \<and> about doc q new
        \<and> failures (butlast new) = [])"
  by (auto simp: save_to_google_sheet_def prog_defs Let_def caught_def split: sum.splits)

lemma load_credentials_effect:
  "load_credentials env u s = (r, s') \<Longrightarrow>
   chat_history s' = chat_history s \<and> document_content s' = document_content s
   \<and> gemini_api_key s' = gemini_api_key s \<and> calls s' = calls s
   \<and> (\<forall>e. r = Inl e \<longleftrightarrow>
          (\<exists>f. credentials_file u = Some f \<and> json_load env (getvalue f) = Inl e))
   \<and> (\<exists>sh. display s' = display s @ sh \<and> Subheader ''Document Summary:'' \<notin> set sh)"
  by (auto simp: load_credentials_def prog_defs split: option.splits sum.splits)

lemma process_upload_effect:
  "process_upload env u s = (r, s') \<Longrightarrow>
   chat_history s' = chat_history s \<and> gemini_api_key s' = gemini_api_key s
   \<and> google_sheet_credentials s' = google_sheet_credentials s
   \<and> (\<forall>e. r = Inl e \<longleftrightarrow>
          (\<exists>f. uploaded_file u = Some f \<and> document_content s = []
                \<and> get_file_content env f = Inl e))
   \<and> (document_content s \<noteq> [] \<longrightarrow> s' = s)
   \<and> (\<exists>new sh. calls s' = calls s @ new \<and> display s' = display s @ sh
        \<and> prefix (operations new) [Setup, Setup, Summarization]
        \<and> chat_responses new = []
        \<and> caught r new sh
        \<and> about (document_content s') q new
        \<and> failures (butlast new) = [])"
  by (auto simp: process_upload_def get_gemini_model_def prog_defs Let_def caught_def
      split: option.splits sum.splits if_splits)

lemma propose_analysis_effect:
  "propose_analysis env u s = (r, s') \<Longrightarrow>
   r = Inr () \<and> chat_history s' = chat_history s \<and> document_content s' = document_content s
   \<and> gemini_api_key s' = gemini_api_key s
   \<and> google_sheet_credentials s' = google_sheet_credentials s
   \<and> (\<exists>new sh. calls s' = calls s @ new \<and> display s' = display s @ sh
        \<and> prefix (operations new)
             [Setup, Setup, AnalysisProposal, Setup, SheetOpen, WorksheetOpen, RowAppend]
        \<and> chat_responses new = []
        \<and> caught (Inr ()) new sh
        \<and> Subheader ''Document Summary:'' \<notin> set sh
        \<and> about (document_content s) q new
        \<and> failures (butlast new) = [])"
  by (auto simp: propose_analysis_def get_gemini_model_def attr_name_def prog_defs Let_def
        caught_def
      split: option.splits sum.splits if_splits prod.splits
      dest!: save_effect [where doc = "document_content s" and q = q])

lemma generate_quiz_effect:
  "generate_quiz env u s = (r, s') \<Longrightarrow>
   r = Inr () \<and> chat_history s' = chat_history s \<and> document_content s' = document_content s
   \<and> gemini_api_key s' = gemini_api_key s
   \<and> google_sheet_credentials s' = google_sheet_credentials s
   \<and> (\<exists>new sh. calls s' = calls s @ new \<and> display s' = display s @ sh
        \<and> prefix (operations new) [Setup, Setup, QuizGeneration]
        \<and> chat_responses new = []
        \<and> caught (Inr ()) new sh
        \<and> Subheader ''Document Summary:'' \<notin> set sh
        \<and> about (document_content s) q new
        \<and> failures (butlast new) = [])"
  by (auto simp: generate_quiz_def get_gemini_model_def prog_defs Let_def caught_def
      split: sum.splits if_splits prod.splits)

lemma show_messages_effect:
  "show_messages h s = (r, s') \<Longrightarrow>
   calls s' = calls s \<and> chat_history s' = chat_history s
   \<and> document_content s' = document_content s \<and> gemini_api_key s' = gemini_api_key s
   \<and> google_sheet_credentials s' = google_sheet_credentials s
   \<and> (readable h \<longrightarrow> r = Inr ())
   \<and> (\<exists>sh. display s' = display s @ sh \<and> Subheader ''Document Summary:'' \<notin> set sh)"
proof (induction h arbitrary: s)
  case Nil
  then show ?case by (simp add: prog_defs)
next
  case (Cons m ms)
  show ?case
  proof (cases "parts m")
    case Nil
    with Cons.prems show ?thesis by (auto simp: prog_defs readable_def)
  next
    case (Cons p ps)
    with Cons.prems Cons.IH [of "s\<lparr>display := display s @ [Chat_message (role m), Markdown p]\<rparr>"]
    show ?thesis by (auto simp: prog_defs readable_def)
  qed
qed

lemma chat_exchange_effect:
  "chat_exchange env u c s = (r, s') \<Longrightarrow>
   r = Inr () \<and> document_content s' = document_content s
   \<and> gemini_api_key s' = gemini_api_key s
   \<and> google_sheet_credentials s' = google_sheet_credentials s
   \<and> (readable (chat_history s) \<longrightarrow> readable (chat_history s'))
   \<and> (\<exists>new sh. calls s' = calls s @ new \<and> display s' = display s @ sh
        \<and> prefix (operations new) [ChatSend, Setup, SheetOpen, WorksheetOpen, RowAppend]
        \<and> chat_history s' = chat_history s
             @ concat (map (exchange_turns (user_question u))
                         (chat_responses new))
        \<and> caught (Inr ()) new sh
        \<and> Subheader ''Document Summary:'' \<notin> set sh
        \<and> about (document_content s) (user_question u) new
        \<and> failures (butlast new) = [])"
  by (auto simp: chat_exchange_def attr_name_def append_turn_def prog_defs Let_def caught_def
        user_turn_def model_turn_def exchange_turns_def readable_def
      split: option.splits sum.splits if_splits prod.splits
      dest!: save_effect [where doc = "document_content s" and q = "user_question u"])

lemma ask_question_effect:
  "ask_question env u s = (r, s') \<Longrightarrow>
   document_content s' = document_content s
   \<and> gemini_api_key s' = gemini_api_key s
   \<and> google_sheet_credentials s' = google_sheet_credentials s
   \<and> (\<exists>new sh. calls s' = calls s @ new \<and> display s' = display s @ sh
        \<and> prefix (operations new)
             [Setup, Setup, Setup, ChatSend, Setup, SheetOpen, WorksheetOpen, RowAppend]
        \<and> chat_history s' = chat_history s
             @ concat (map (exchange_turns (user_question u))
                         (chat_responses new))
        \<and> caught r new sh
        \<and> Subheader ''Document Summary:'' \<notin> set sh
        \<and> Subheader ''Ask a question about the document or statistical analysis:'' \<in> set sh
        \<and> about (document_content s) (user_question u) new
        \<and> failures (butlast new) = []
        \<and> (\<forall>e. r = Inl e \<and> readable (chat_history s) \<longrightarrow>
              new \<noteq> [] \<and> (\<exists>c. last new = (c, Inl e) \<and> chat_setup c)))"
  by (auto simp: ask_question_def get_gemini_model_def prog_defs Let_def
      split: sum.splits if_splits prod.splits
      dest!: chat_exchange_effect show_messages_effect)

lemma document_tools_effect:
  assumes "document_tools env u s = (r, s')"
  shows "document_content s' = document_content s
   \<and> gemini_api_key s' = gemini_api_key s
   \<and> google_sheet_credentials s' = google_sheet_credentials s
   \<and> (document_content s = [] \<longrightarrow> s' = s \<and> r = Inr ())
   \<and> (\<exists>b c d sh. calls s' = calls s @ b @ c @ d \<and> display s' = display s @ sh
        \<and> prefix (operations b)
             [Setup, Setup, AnalysisProposal, Setup, SheetOpen, WorksheetOpen, RowAppend]
        \<and> prefix (operations c) [Setup, Setup, QuizGeneration]
        \<and> prefix (operations d)
             [Setup, Setup, Setup, ChatSend, Setup, SheetOpen, WorksheetOpen, RowAppend]
        \<and> chat_responses b = [] \<and> chat_responses c = []
        \<and> chat_history s' = chat_history s
             @ concat (map (exchange_turns (user_question u))
                         (chat_responses d))
        \<and> caught r (b @ c @ d) sh
        \<and> Subheader ''Document Summary:'' \<notin> set sh
        \<and> (document_content s \<noteq> [] \<longrightarrow>
             Subheader ''Ask a question about the document or statistical analysis:''
               \<in> set sh)
        \<and> about (document_content s) (user_question u) (b @ c @ d)
        \<and> failures (butlast b) = [] \<and> failures (butlast c) = []
        \<and> failures (butlast d) = []
        \<and> (\<forall>e. r = Inl e \<and> readable (chat_history s) \<longrightarrow>
              d \<noteq> [] \<and> (\<exists>c. last d = (c, Inl e) \<and> chat_setup c)))"
proof (cases "document_content s = []")
  case True
  with assms have "s' = s" "r = Inr ()"
    by (simp_all add: document_tools_def ret_def)
  with True show ?thesis
    by (auto intro!: exI [of _ "[]"])
next
  case False
  obtain r3 s3 where a: "propose_analysis env u s = (r3, s3)"
    by (cases "propose_analysis env u s")
  obtain r4 s4 where q: "generate_quiz env u s3 = (r4, s4)"
    by (cases "generate_quiz env u s3")
  note ea = propose_analysis_effect [OF a, where q = "user_question u"]
  note eq = generate_quiz_effect [OF q, where q = "user_question u"]
  have k: "ask_question env u s4 = (r, s')"
    using assms False a q ea eq by (simp add: document_tools_def bnd_def)
  note ek = ask_question_effect [OF k]
  from ea obtain b shb where b: "calls s3 = calls s @ b" "display s3 = display s @ shb"
    "prefix (operations b)
       [Setup, Setup, AnalysisProposal, Setup, SheetOpen, WorksheetOpen, RowAppend]"
    "chat_responses b = []" "caught (Inr ()) b shb" "Subheader ''Document Summary:'' \<notin> set shb"
    "about (document_content s) (user_question u) b" "failures (butlast b) = []"
    by blast
  from eq obtain c shc where c: "calls s4 = calls s3 @ c" "display s4 = display s3 @ shc"
    "prefix (operations c) [Setup, Setup, QuizGeneration]"
    "chat_responses c = []" "caught (Inr ()) c shc" "Subheader ''Document Summary:'' \<notin> set shc"
    "about (document_content s3) (user_question u) c" "failures (butlast c) = []"
    by blast
  from ek obtain d shd where d: "calls s' = calls s4 @ d" "display s' = display s4 @ shd"
    "prefix (operations d)
       [Setup, Setup, Setup, ChatSend, Setup, SheetOpen, WorksheetOpen, RowAppend]"
    "chat_history s' = chat_history s4
       @ concat (map (exchange_turns (user_question u))
                   (chat_responses d))"
    "caught r d shd" "Subheader ''Document Summary:'' \<notin> set shd"
    "Subheader ''Ask a question about the document or statistical analysis:'' \<in> set shd"
    "about (document_content s4) (user_question u) d" "failures (butlast d) = []"
    "\<forall>e. r = Inl e \<and> readable (chat_history s4) \<longrightarrow>
        d \<noteq> [] \<and> (\<exists>c. last d = (c, Inl e) \<and> chat_setup c)"
    by blast
  have fields: "document_content s3 = document_content s" "document_content s4 = document_content s"
    "chat_history s4 = chat_history s"
    using ea eq by simp_all
  have cg: "caught r (b @ c @ d) (shb @ shc @ shd)"
    using b(5) c(5) d(5) by (intro caught_append)
  show ?thesis
    apply (intro conjI)
    using ea eq ek apply simp
    using ea eq ek apply simp
    using ea eq ek apply simp
    using False apply simp
    apply (rule exI [of _ b], rule exI [of _ c], rule exI [of _ d],
        rule exI [of _ "shb @ shc @ shd"])
    using b c d fields cg apply simp
    done
qed


lemma main_steps [consumes 1, case_names no_key bad_credentials bad_file tools]:
  assumes "main env u ss = (r, s')"
  obtains
    "gemini_api_key_input u = []" "r = Inr ()"
    "s' = (init_session ss)
          \<lparr>display := [Title ''Chatbot for Document Q&A and Statistical Analysis'',
                      Warning ''Please enter your Gemini API Key to proceed.'']\<rparr>"
  | e where "gemini_api_key_input u \<noteq> []"
      "load_credentials env u (started u ss) = (Inl e, s')" "r = Inl e"
  | s1 e where "gemini_api_key_input u \<noteq> []"
      "load_credentials env u (started u ss) = (Inr (), s1)"
      "process_upload env u s1 = (Inl e, s')" "r = Inl e"
  | s1 s2 where "gemini_api_key_input u \<noteq> []"
      "load_credentials env u (started u ss) = (Inr (), s1)"
      "process_upload env u s1 = (Inr (), s2)"
      "document_tools env u s2 = (r, s')"
proof (cases "gemini_api_key_input u = []")
  case True
  with assms that(1) show ?thesis
    by (auto simp: main_def prog_defs)
next
  case False
  obtain r1 s1 where l: "load_credentials env u (started u ss) = (r1, s1)"
    by (cases "load_credentials env u (started u ss)")
  obtain r2 s2 where p: "process_upload env u s1 = (r2, s2)"
    by (cases "process_upload env u s1")
  from assms False l p that(2-4) show ?thesis
    by (auto simp: main_def bnd_def st_def started_def split: sum.splits)
qed

lemma main_effect:
  assumes "main env u ss = (r, s')"
  shows "\<exists>a b c d.
           calls s' = a @ b @ c @ d
           \<and> prefix (operations a) [Setup, Setup, Summarization]
           \<and> prefix (operations b)
                [Setup, Setup, AnalysisProposal, Setup, SheetOpen, WorksheetOpen, RowAppend]
           \<and> prefix (operations c) [Setup, Setup, QuizGeneration]
           \<and> prefix (operations d)
                [Setup, Setup, Setup, ChatSend, Setup, SheetOpen, WorksheetOpen, RowAppend]
           \<and> chat_responses a = [] \<and> chat_responses b = [] \<and> chat_responses c = []
           \<and> chat_history s' = chat_history (init_session ss)
                @ concat (map (exchange_turns (user_question u))
                            (chat_responses d))
           \<and> caught r (calls s') (display s')
           \<and> about (document_content s') (user_question u) (calls s')
           \<and> failures (butlast a) = [] \<and> failures (butlast b) = []
           \<and> failures (butlast c) = [] \<and> failures (butlast d) = []
           \<and> (\<forall>e. r = Inl e \<and> readable (chat_history (init_session ss)) \<longrightarrow>
                 (\<exists>f. credentials_file u = Some f \<and> json_load env (getvalue f) = Inl e)
                 \<or> (\<exists>f. uploaded_file u = Some f \<and> get_file_content env f = Inl e)
                 \<or> (calls s' \<noteq> [] \<and> (\<exists>c. last (calls s') = (c, Inl e) \<and> chat_setup c)))"
  using assms
proof (cases rule: main_steps)
  case no_key
  then show ?thesis by simp
next
  case (bad_credentials e)
  from load_credentials_effect [OF bad_credentials(2)] bad_credentials(3)
  show ?thesis by auto
next
  case (bad_file s1 e)
  note l = load_credentials_effect [OF bad_file(2)]
  note p = process_upload_effect [OF bad_file(3), where q = "user_question u"]
  from p obtain a sh where a: "calls s' = calls s1 @ a" "display s' = display s1 @ sh"
    "prefix (operations a) [Setup, Setup, Summarization]" "chat_responses a = []"
    "caught r a sh" "about (document_content s') (user_question u) a"
    "failures (butlast a) = []"
    using bad_file(4) by blast
  have "caught r a (display s')"
    using a(5) l unfolding caught_def a(2) by fastforce
  then show ?thesis
    apply -
    apply (rule exI [of _ a], rule exI [of _ "[]"], rule exI [of _ "[]"], rule exI [of _ "[]"])
    using a l p bad_file(4) by auto
next
  case (tools s1 s2)
  note l = load_credentials_effect [OF tools(2)]
  note p = process_upload_effect [OF tools(3), where q = "user_question u"]
  note t = document_tools_effect [OF tools(4)]
  from p obtain a sha where a: "calls s2 = calls s1 @ a" "display s2 = display s1 @ sha"
    "prefix (operations a) [Setup, Setup, Summarization]" "chat_responses a = []"
    "caught (Inr ()) a sha" "about (document_content s2) (user_question u) a"
    "failures (butlast a) = []"
    by blast
  from t obtain b c d sh where t': "calls s' = calls s2 @ b @ c @ d"
    "display s' = display s2 @ sh"
    "prefix (operations b)
       [Setup, Setup, AnalysisProposal, Setup, SheetOpen, WorksheetOpen, RowAppend]"
    "prefix (operations c) [Setup, Setup, QuizGeneration]"
    "prefix (operations d)
       [Setup, Setup, Setup, ChatSend, Setup, SheetOpen, WorksheetOpen, RowAppend]"
    "chat_responses b = []" "chat_responses c = []"
    "chat_history s' = chat_history s2
       @ concat (map (exchange_turns (user_question u))
                   (chat_responses d))"
    "caught r (b @ c @ d) sh"
    "about (document_content s2) (user_question u) (b @ c @ d)"
    "failures (butlast b) = []" "failures (butlast c) = []" "failures (butlast d) = []"
    "\<forall>e. r = Inl e \<and> readable (chat_history s2) \<longrightarrow>
        d \<noteq> [] \<and> (\<exists>c. last d = (c, Inl e) \<and> chat_setup c)"
    by blast
  have s1: "calls s1 = []" "chat_history s2 = chat_history (init_session ss)"
    "document_content s' = document_content s2"
    using l p t by simp_all
  have "caught r (a @ b @ c @ d) (sha @ sh)"
    using a(5) t'(9) by (rule caught_append)
  then have cg: "caught r (calls s') (display s')"
    unfolding caught_def t'(1,2) a(1,2) s1(1) by fastforce
  show ?thesis
    apply (rule exI [of _ a], rule exI [of _ b], rule exI [of _ c], rule exI [of _ d])
    using a t' s1 cg by auto
qed

section \<open>Running the page on the examples\<close>

lemmas run_defs = main_def load_credentials_def process_upload_def document_tools_def
  propose_analysis_def generate_quiz_def ask_question_def chat_exchange_def
  get_gemini_model_def save_to_google_sheet_def attr_name_def append_turn_def
  init_session_def get_file_content_def stored_def prog_defs Let_def

lemmas example_defs = ok_env_def fail_at_def blocked_env_def bad_json_env_def bad_utf8_env_def
  visit_def
  fresh_def notes_txt_def paper_pdf_def
  photo_png_def key_file_def key_json_def midway_def

lemma visited_eq:
  "visited = \<lparr>stored_gemini_api_key = Some ''k'', stored_chat_history = Some [],
              stored_document_content = Some ''hello'',
              stored_google_sheet_credentials = Some key_json\<rparr>"
  by (simp add: visited_def run_defs example_defs)

section \<open>Appending a row to the spreadsheet\<close>

text \<open>
  Claim C3. \<open>save_to_google_sheet\<close> never raises: it always returns normally. It builds the
  client from the credentials, opens the spreadsheet by name, opens the worksheet and appends
  the row, in this order and each at most once; the first of these steps that raises ends
  the sequence, and its message is displayed in an error box; when none raises, the success
  message is displayed. Nothing else is called and nothing else is displayed.
\<close>

theorem save_to_google_sheet_steps:
  "fst (save_to_google_sheet env data sheet_name worksheet_name cred s) = Inr ()
   \<and> (service_account_from_dict env (length (calls s)) cred = Inl e1 \<longrightarrow>
        snd (save_to_google_sheet env data sheet_name worksheet_name cred s)
        = s\<lparr>display := display s @ [save_failed_msg e1],
             calls := calls s @ [(ServiceAccountFromDict cred, Inl e1)]\<rparr>)
   \<and> (service_account_from_dict env (length (calls s)) cred = Inr gc
        \<and> open_spreadsheet env (length (calls s) + 1) gc sheet_name = Inl e2 \<longrightarrow>
        snd (save_to_google_sheet env data sheet_name worksheet_name cred s)
        = s\<lparr>display := display s @ [save_failed_msg e2],
             calls := calls s @ [(ServiceAccountFromDict cred, Inr (GotClient gc)),
                                 (OpenSpreadsheet sheet_name, Inl e2)]\<rparr>)
   \<and> (service_account_from_dict env (length (calls s)) cred = Inr gc
        \<and> open_spreadsheet env (length (calls s) + 1) gc sheet_name = Inr sh
        \<and> open_worksheet env (length (calls s) + 2) sh worksheet_name = Inl e3 \<longrightarrow>
        snd (save_to_google_sheet env data sheet_name worksheet_name cred s)
        = s\<lparr>display := display s @ [save_failed_msg e3],
             calls := calls s @ [(ServiceAccountFromDict cred, Inr (GotClient gc)),
                                 (OpenSpreadsheet sheet_name, Inr (GotSpreadsheet sh)),
                                 (OpenWorksheet worksheet_name, Inl e3)]\<rparr>)
   \<and> (service_account_from_dict env (length (calls s)) cred = Inr gc
        \<and> open_spreadsheet env (length (calls s) + 1) gc sheet_name = Inr sh
        \<and> open_worksheet env (length (calls s) + 2) sh worksheet_name = Inr ws
        \<and> append_row env (length (calls s) + 3) ws data = Inl e4 \<longrightarrow>
        snd (save_to_google_sheet env data sheet_name worksheet_name cred s)
        = s\<lparr>display := display s @ [save_failed_msg e4],
             calls := calls s @ [(ServiceAccountFromDict cred, Inr (GotClient gc)),
                                 (OpenSpreadsheet sheet_name, Inr (GotSpreadsheet sh)),
                                 (OpenWorksheet worksheet_name, Inr (GotWorksheet ws)),
                                 (AppendRow data, Inl e4)]\<rparr>)
   \<and> (service_account_from_dict env (length (calls s)) cred = Inr gc
        \<and> open_spreadsheet env (length (calls s) + 1) gc sheet_name = Inr sh
        \<and> open_worksheet env (length (calls s) + 2) sh worksheet_name = Inr ws
        \<and> append_row env (length (calls s) + 3) ws data = Inr () \<longrightarrow>
        snd (save_to_google_sheet env data sheet_name worksheet_name cred s)
        = s\<lparr>display := display s @ [saved_msg sheet_name worksheet_name],
             calls := calls s @ [(ServiceAccountFromDict cred, Inr (GotClient gc)),
                                 (OpenSpreadsheet sheet_name, Inr (GotSpreadsheet sh)),
                                 (OpenWorksheet worksheet_name, Inr (GotWorksheet ws)),
                                 (AppendRow data, Inr Done)]\<rparr>)"
  by (auto simp: save_to_google_sheet_def prog_defs saved_msg_def save_failed_msg_def Let_def
      eval_nat_numeral split: sum.splits)

theorem save_to_google_sheet_steps_witness:
  "snd (save_to_google_sheet (fail_at 0) [''notes.txt'', ''q'', ''a''] ''Log'' ''Questions''
          key_json midway)
     = midway\<lparr>display := [Error ''Error saving to Google Sheet: boom''],
              calls := [(ServiceAccountFromDict key_json, Inl (Exception ''boom''))]\<rparr>
   \<and> snd (save_to_google_sheet (fail_at 1) [''notes.txt'', ''q'', ''a''] ''Log'' ''Questions''
          key_json midway)
     = midway\<lparr>display := [Error ''Error saving to Google Sheet: boom''],
              calls := [(ServiceAccountFromDict key_json, Inr (GotClient (Client 0))),
                        (OpenSpreadsheet ''Log'', Inl (Exception ''boom''))]\<rparr>
   \<and> snd (save_to_google_sheet (fail_at 2) [''notes.txt'', ''q'', ''a''] ''Log'' ''Questions''
          key_json midway)
     = midway\<lparr>display := [Error ''Error saving to Google Sheet: boom''],
              calls := [(ServiceAccountFromDict key_json, Inr (GotClient (Client 0))),
                        (OpenSpreadsheet ''Log'', Inr (GotSpreadsheet (Spreadsheet 0))),
                        (OpenWorksheet ''Questions'', Inl (Exception ''boom''))]\<rparr>
   \<and> snd (save_to_google_sheet (fail_at 3) [''notes.txt'', ''q'', ''a''] ''Log'' ''Questions''
          key_json midway)
     = midway\<lparr>display := [Error ''Error saving to Google Sheet: boom''],
              calls := [(ServiceAccountFromDict key_json, Inr (GotClient (Client 0))),
                        (OpenSpreadsheet ''Log'', Inr (GotSpreadsheet (Spreadsheet 0))),
                        (OpenWorksheet ''Questions'', Inr (GotWorksheet (Worksheet 0))),
                        (AppendRow [''notes.txt'', ''q'', ''a''], Inl (Exception ''boom''))]\<rparr>
   \<and> snd (save_to_google_sheet ok_env [''notes.txt'', ''q'', ''a''] ''Log'' ''Questions''
          key_json midway)
     = midway\<lparr>display := [saved_msg ''Log'' ''Questions''],
              calls := [(ServiceAccountFromDict key_json, Inr (GotClient (Client 0))),
                        (OpenSpreadsheet ''Log'', Inr (GotSpreadsheet (Spreadsheet 0))),
                        (OpenWorksheet ''Questions'', Inr (GotWorksheet (Worksheet 0))),
                        (AppendRow [''notes.txt'', ''q'', ''a''], Inr Done)]\<rparr>"
proof -
  have m: "calls midway = []" "display midway = []"
    by (simp_all add: midway_def)
  have f0: "service_account_from_dict (fail_at 0) (length (calls midway)) key_json
              = Inl (Exception ''boom'')"
    by (simp add: fail_at_def ok_env_def midway_def)
  have f1: "service_account_from_dict (fail_at 1) (length (calls midway)) key_json
              = Inr (Client 0)"
    "open_spreadsheet (fail_at 1) (length (calls midway) + 1) (Client 0) ''Log''
       = Inl (Exception ''boom'')"
    by (simp_all add: fail_at_def ok_env_def midway_def)
  have f2: "service_account_from_dict (fail_at 2) (length (calls midway)) key_json
              = Inr (Client 0)"
    "open_spreadsheet (fail_at 2) (length (calls midway) + 1) (Client 0) ''Log''
       = Inr (Spreadsheet 0)"
    "open_worksheet (fail_at 2) (length (calls midway) + 2) (Spreadsheet 0) ''Questions''
       = Inl (Exception ''boom'')"
    by (simp_all add: fail_at_def ok_env_def midway_def)
  have f3: "service_account_from_dict (fail_at 3) (length (calls midway)) key_json
              = Inr (Client 0)"
    "open_spreadsheet (fail_at 3) (length (calls midway) + 1) (Client 0) ''Log''
       = Inr (Spreadsheet 0)"
    "open_worksheet (fail_at 3) (length (calls midway) + 2) (Spreadsheet 0) ''Questions''
       = Inr (Worksheet 0)"
    "append_row (fail_at 3) (length (calls midway) + 3) (Worksheet 0) [''notes.txt'', ''q'', ''a'']
       = Inl (Exception ''boom'')"
    by (simp_all add: fail_at_def ok_env_def midway_def)
  have f4: "service_account_from_dict ok_env (length (calls midway)) key_json = Inr (Client 0)"
    "open_spreadsheet ok_env (length (calls midway) + 1) (Client 0) ''Log'' = Inr (Spreadsheet 0)"
    "open_worksheet ok_env (length (calls midway) + 2) (Spreadsheet 0) ''Questions''
       = Inr (Worksheet 0)"
    "append_row ok_env (length (calls midway) + 3) (Worksheet 0) [''notes.txt'', ''q'', ''a'']
       = Inr ()"
    by (simp_all add: ok_env_def midway_def)
  note steps = save_to_google_sheet_steps
    [where s = midway and cred = key_json and data = "[''notes.txt'', ''q'', ''a'']"
       and sheet_name = "''Log''" and worksheet_name = "''Questions''"]
  show ?thesis
    using steps [where env = "fail_at 0" and ?e1.0 = "Exception ''boom''"] f0
      steps [where env = "fail_at 1" and gc = "Client 0" and ?e2.0 = "Exception ''boom''"] f1
      steps [where env = "fail_at 2" and gc = "Client 0" and sh = "Spreadsheet 0"
             and ?e3.0 = "Exception ''boom''"] f2
      steps [where env = "fail_at 3" and gc = "Client 0" and sh = "Spreadsheet 0"
             and ws = "Worksheet 0" and ?e4.0 = "Exception ''boom''"] f3
      steps [where env = ok_env and gc = "Client 0" and sh = "Spreadsheet 0"
             and ws = "Worksheet 0"] f4
    by (simp add: m save_failed_msg_def)
qed

section \<open>Counting in the log\<close>

lemma invocations_append [simp]:
  "invocations k (a @ b) = invocations k a + invocations k b"
  by (simp add: invocations_def)

lemma invocations_operations:
  "invocations k evs = length (filter (\<lambda>o'. o' = k) (operations evs))"
  by (simp add: invocations_def operations_def filter_map comp_def)

lemma prefix_filter_length:
  "prefix xs ys \<Longrightarrow> length (filter P xs) \<le> length (filter P ys)"
  by (auto simp: prefix_def)

lemma invocations_prefix:
  "prefix (operations evs) ops \<Longrightarrow> invocations k evs \<le> length (filter (\<lambda>o'. o' = k) ops)"
  by (simp add: invocations_operations prefix_filter_length)

lemma chat_responses_length:
  "length (chat_responses evs) \<le> invocations ChatSend evs"
proof (induction evs)
  case Nil
  then show ?case by (simp add: invocations_def)
next
  case (Cons ev evs)
  obtain c x where ev: "ev = (c, x)" by (cases ev)
  have "length (chat_responses [ev]) \<le> invocations ChatSend [ev]"
    by (cases c; cases x) (auto simp: ev chat_responses_def invocations_def split: reply.splits)
  with Cons show ?case
    using chat_responses_simps(2) [of "[ev]" evs] invocations_append [of ChatSend "[ev]" evs]
    by simp
qed

section \<open>The chat history\<close>

text \<open>
  How a run changes the history. The log of a run holds at most one response of the chat.
  When \<open>send_message\<close> returned none (it raised, or the run never got to call it), the
  history is the one the run found. When it returned a response whose text can be read, the
  history is the one the run found followed by the user turn with the question and the model
  turn with that text. When it returned a response whose text cannot be read, only the user
  turn is added. The history a run finds is always the beginning of the one it leaves.
\<close>

lemma chat_history_grows:
  assumes "main env u ss = (r, s')"
  shows "(chat_responses (calls s') = [] \<or> (\<exists>resp. chat_responses (calls s') = [resp]))
     \<and> (chat_responses (calls s') = [] \<longrightarrow>
          chat_history s' = chat_history (init_session ss))
     \<and> (\<forall>resp t. chat_responses (calls s') = [resp] \<and> text resp = Inr t \<longrightarrow>
          chat_history s' = chat_history (init_session ss)
                            @ [user_turn (user_question u), model_turn t])
     \<and> (\<forall>resp e. chat_responses (calls s') = [resp] \<and> text resp = Inl e \<longrightarrow>
          chat_history s' = chat_history (init_session ss) @ [user_turn (user_question u)])
     \<and> prefix (chat_history (init_session ss)) (chat_history s')"
proof -
  from main_effect [OF assms] obtain a b c d where
    log: "calls s' = a @ b @ c @ d"
    and d: "prefix (operations d)
              [Setup, Setup, Setup, ChatSend, Setup, SheetOpen, WorksheetOpen, RowAppend]"
    and abc: "chat_responses a = []" "chat_responses b = []" "chat_responses c = []"
    and h: "chat_history s' = chat_history (init_session ss)
              @ concat (map (exchange_turns (user_question u)) (chat_responses d))"
    by blast
  have all: "chat_responses (calls s') = chat_responses d"
    by (simp add: log abc)
  have "length (chat_responses d) \<le> 1"
    using chat_responses_length [of d] invocations_prefix [OF d, of ChatSend] by simp
  then have "chat_responses d = [] \<or> (\<exists>resp. chat_responses d = [resp])"
    by (cases "chat_responses d") auto
  then show ?thesis
    using h by (auto simp: all exchange_turns_def)
qed

text \<open>
  Three runs with a question, on the session of the first visit: one where the chat
  answers, one where \<open>send_message\<close>, the fourth remote call, raises, and one where the
  response of the chat holds no text.
\<close>

lemma asked_ok:
  "main ok_env (visit\<lparr>user_question := ''why?''\<rparr>) visited =
     (Inr (),
      \<lparr>gemini_api_key = ''k'',
       chat_history = [user_turn ''why?'', model_turn ''reply''],
       document_content = ''hello'',
       google_sheet_credentials = key_json,
       display =
         [Title ''Chatbot for Document Q&A and Statistical Analysis'',
          Success ''Gemini API Key set!'',
          Sidebar_subheader ''Google Sheet Integration'',
          Sidebar_success ''Google Sheet credentials loaded!'',
          Subheader ''Ask a question about the document or statistical analysis:'',
          saved_msg ''Log'' ''Questions'',
          Chat_message ''user'', Markdown ''why?'',
          Chat_message ''model'', Markdown ''reply''],
       calls =
         [(Configure ''k'', Inr Done),
          (NewModel ''gemini-pro'', Inr (GotModel (Model 0))),
          (StartChat [], Inr (GotChat (Chat 0))),
          (SendMessage (chat_prompt ''hello'' ''why?''),
           Inr (GotResponse \<lparr>text = Inr ''reply''\<rparr>)),
          (ServiceAccountFromDict key_json, Inr (GotClient (Client 0))),
          (OpenSpreadsheet ''Log'', Inr (GotSpreadsheet (Spreadsheet 0))),
          (OpenWorksheet ''Questions'', Inr (GotWorksheet (Worksheet 0))),
          (AppendRow [''notes.txt'', ''why?'', ''reply''], Inr Done)]\<rparr>)"
  by (simp add: visited_eq run_defs example_defs user_turn_def model_turn_def saved_msg_def)

lemma asked_send_fails:
  "main (fail_at 3) (visit\<lparr>user_question := ''why?''\<rparr>) visited =
     (Inr (),
      \<lparr>gemini_api_key = ''k'',
       chat_history = [],
       document_content = ''hello'',
       google_sheet_credentials = key_json,
       display =
         [Title ''Chatbot for Document Q&A and Statistical Analysis'',
          Success ''Gemini API Key set!'',
          Sidebar_subheader ''Google Sheet Integration'',
          Sidebar_success ''Google Sheet credentials loaded!'',
          Subheader ''Ask a question about the document or statistical analysis:'',
          Error ''Error communicating with Gemini: boom''],
       calls =
         [(Configure ''k'', Inr Done),
          (NewModel ''gemini-pro'', Inr (GotModel (Model 0))),
          (StartChat [], Inr (GotChat (Chat 0))),
          (SendMessage (chat_prompt ''hello'' ''why?''), Inl (Exception ''boom''))]\<rparr>)"
  by (simp add: visited_eq run_defs example_defs)

text \<open>
  Claim C2 fails on the code. On the session of the first visit, the question "why?" is
  submitted and \<open>send_message\<close> succeeds with a response that holds no text. Line 120 has
  appended the user turn when line 121 reads \<open>response.text\<close>, which raises: the handler
  shows the error, and the history the run leaves is the one it found followed by the user
  turn alone, one turn and not two, although the call succeeded.
\<close>

theorem user_turn_left_alone:
  "main blocked_env (visit\<lparr>user_question := ''why?''\<rparr>) visited =
     (Inr (),
      \<lparr>gemini_api_key = ''k'',
       chat_history = [user_turn ''why?''],
       document_content = ''hello'',
       google_sheet_credentials = key_json,
       display =
         [Title ''Chatbot for Document Q&A and Statistical Analysis'',
          Success ''Gemini API Key set!'',
          Sidebar_subheader ''Google Sheet Integration'',
          Sidebar_success ''Google Sheet credentials loaded!'',
          Subheader ''Ask a question about the document or statistical analysis:'',
          Error ''Error communicating with Gemini: no valid Part'',
          Chat_message ''user'', Markdown ''why?''],
       calls =
         [(Configure ''k'', Inr Done),
          (NewModel ''gemini-pro'', Inr (GotModel (Model 0))),
          (StartChat [], Inr (GotChat (Chat 0))),
          (SendMessage (chat_prompt ''hello'' ''why?''),
           Inr (GotResponse \<lparr>text = Inl (Exception ''no valid Part'')\<rparr>))]\<rparr>)"
  by (simp add: visited_eq run_defs example_defs user_turn_def)

section \<open>Without an API key\<close>

text \<open>
  Claim C10. When the API-key field is empty, \<open>main\<close> returns normally right after the
  warning, whatever the other widgets hold and whatever the libraries would answer: the
  page shows the title and the warning only, no remote call is made, and the session is the
  one the run found with the absent keys set to their defaults. The result does not
  depend on the files in the uploaders, so none is read.
\<close>

theorem no_key_no_effect:
  "gemini_api_key_input u = [] \<Longrightarrow>
   main env u ss =
     (Inr (),
      (init_session ss)
      \<lparr>display := [Title ''Chatbot for Document Q&A and Statistical Analysis'',
                  Warning ''Please enter your Gemini API Key to proceed.'']\<rparr>)
   \<and> calls (snd (main env u ss)) = []
   \<and> stored (snd (main env u ss)) = stored (init_session ss)"
  by (simp add: main_def prog_defs stored_def)

theorem no_key_no_effect_witness:
  "gemini_api_key_input (visit\<lparr>gemini_api_key_input := []\<rparr>) = []
   \<and> main (fail_at 0) (visit\<lparr>gemini_api_key_input := []\<rparr>) fresh =
     (Inr (),
      \<lparr>gemini_api_key = [], chat_history = [], document_content = [],
       google_sheet_credentials = JNull,
       display = [Title ''Chatbot for Document Q&A and Statistical Analysis'',
                  Warning ''Please enter your Gemini API Key to proceed.''],
       calls = []\<rparr>)"
proof -
  have k: "gemini_api_key_input (visit\<lparr>gemini_api_key_input := []\<rparr>) = []"
    by simp
  show ?thesis
    using no_key_no_effect [OF k, of "fail_at 0" fresh] k
    by (simp add: init_session_def fresh_def)
qed

section \<open>The stored document\<close>

text \<open>Once a document is stored, a run neither replaces it nor asks for a summary.\<close>

lemma document_kept:
  assumes "main env u ss = (r, s')" and "document_content (init_session ss) \<noteq> []"
  shows "document_content s' = document_content (init_session ss)
     \<and> invocations Summarization (calls s') = 0
     \<and> Subheader ''Document Summary:'' \<notin> set (display s')"
  using assms(1)
proof (cases rule: main_steps)
  case no_key
  then show ?thesis by (simp add: invocations_def)
next
  case (bad_credentials e)
  from load_credentials_effect [OF bad_credentials(2)]
  show ?thesis by (auto simp: invocations_def)
next
  case (bad_file s1 e)
  from load_credentials_effect [OF bad_file(2)] process_upload_effect [OF bad_file(3)] assms(2)
  show ?thesis by auto
next
  case (tools s1 s2)
  note l = load_credentials_effect [OF tools(2)]
  have same: "s2 = s1"
    using process_upload_effect [OF tools(3)] l assms(2) by simp
  from document_tools_effect [OF tools(4)] obtain b c d sh where
    t: "document_content s' = document_content s2"
    "calls s' = calls s2 @ b @ c @ d" "display s' = display s2 @ sh"
    "prefix (operations b)
       [Setup, Setup, AnalysisProposal, Setup, SheetOpen, WorksheetOpen, RowAppend]"
    "prefix (operations c) [Setup, Setup, QuizGeneration]"
    "prefix (operations d)
       [Setup, Setup, Setup, ChatSend, Setup, SheetOpen, WorksheetOpen, RowAppend]"
    "Subheader ''Document Summary:'' \<notin> set sh"
    by blast
  have "invocations Summarization (b @ c @ d) = 0"
    using invocations_prefix [OF t(4), of Summarization]
      invocations_prefix [OF t(5), of Summarization]
      invocations_prefix [OF t(6), of Summarization]
    by simp
  then show ?thesis
    using t l same by auto
qed

text \<open>
  Claim C8. The stored document content is written once per session: when a run finds it
  non-empty, the run leaves it as it is, whatever file is uploaded and however the run
  ends, so it is only ever assigned while it is the empty string; and such a run sends no
  summarization request and shows no document summary.
\<close>

theorem document_content_write_once:
  "document_content (init_session ss) \<noteq> [] \<Longrightarrow>
   document_content (snd (main env u ss)) = document_content (init_session ss)
   \<and> invocations Summarization (calls (snd (main env u ss))) = 0
   \<and> Subheader ''Document Summary:'' \<notin> set (display (snd (main env u ss)))"
  using document_kept [OF surjective_pairing] by blast

theorem document_content_write_once_witness:
  "document_content (init_session visited) = ''hello''
   \<and> document_content (snd (main ok_env (visit\<lparr>uploaded_file := Some paper_pdf\<rparr>) visited))
       = ''hello''
   \<and> invocations Summarization
        (calls (snd (main ok_env (visit\<lparr>uploaded_file := Some paper_pdf\<rparr>) visited))) = 0"
proof -
  have d: "document_content (init_session visited) = ''hello''"
    by (simp add: visited_eq init_session_def)
  then have "document_content (init_session visited) \<noteq> []"
    by simp
  from document_content_write_once [OF this, of ok_env "visit\<lparr>uploaded_file := Some paper_pdf\<rparr>"] d
  show ?thesis by simp
qed

section \<open>No call is retried\<close>

text \<open>
  A run that both proposes an analysis and answers a question, on the session of the first
  visit: the button is pressed while the question is still in its box.
\<close>

lemma proposed_and_asked:
  "main ok_env (visit\<lparr>propose_button := True, user_question := ''why?''\<rparr>) visited =
     (Inr (),
      \<lparr>gemini_api_key = ''k'',
       chat_history = [user_turn ''why?'', model_turn ''reply''],
       document_content = ''hello'',
       google_sheet_credentials = key_json,
       display =
         [Title ''Chatbot for Document Q&A and Statistical Analysis'',
          Success ''Gemini API Key set!'',
          Sidebar_subheader ''Google Sheet Integration'',
          Sidebar_success ''Google Sheet credentials loaded!'',
          Spinner ''Generating statistical analysis proposals...'',
          Subheader ''Statistical Analysis Proposals:'',
          Write ''generated'',
          saved_msg ''Log'' ''Analysis'',
          Subheader ''Ask a question about the document or statistical analysis:'',
          saved_msg ''Log'' ''Questions'',
          Chat_message ''user'', Markdown ''why?'',
          Chat_message ''model'', Markdown ''reply''],
       calls =
         [(Configure ''k'', Inr Done),
          (NewModel ''gemini-pro'', Inr (GotModel (Model 0))),
          (GenerateContent (analysis_prompt ''hello''),
           Inr (GotResponse \<lparr>text = Inr ''generated''\<rparr>)),
          (ServiceAccountFromDict key_json, Inr (GotClient (Client 0))),
          (OpenSpreadsheet ''Log'', Inr (GotSpreadsheet (Spreadsheet 0))),
          (OpenWorksheet ''Analysis'', Inr (GotWorksheet (Worksheet 0))),
          (AppendRow [''notes.txt'', ''Analysis Proposal'', ''generated''], Inr Done),
          (Configure ''k'', Inr Done),
          (NewModel ''gemini-pro'', Inr (GotModel (Model 0))),
          (StartChat [], Inr (GotChat (Chat 0))),
          (SendMessage (chat_prompt ''hello'' ''why?''),
           Inr (GotResponse \<lparr>text = Inr ''reply''\<rparr>)),
          (ServiceAccountFromDict key_json, Inr (GotClient (Client 0))),
          (OpenSpreadsheet ''Log'', Inr (GotSpreadsheet (Spreadsheet 0))),
          (OpenWorksheet ''Questions'', Inr (GotWorksheet (Worksheet 0))),
          (AppendRow [''notes.txt'', ''why?'', ''reply''], Inr Done)]\<rparr>)"
  by (simp add: visited_eq run_defs example_defs user_turn_def model_turn_def saved_msg_def)

text \<open>In that run the spreadsheet is opened twice.\<close>

theorem sheet_opened_twice:
  "\<not> invocations SheetOpen
       (calls (snd (main ok_env (visit\<lparr>propose_button := True, user_question := ''why?''\<rparr>)
                      visited))) \<le> 1"
  by (simp add: proposed_and_asked invocations_def)

text \<open>
  Claim C7, amended. No call is retried. The log of a run splits into four parts, one for
  each handler of \<open>main\<close> (summary, analysis proposal, quiz, chat), each part a beginning of
  the fixed sequence of operations of its handler; in each part no call follows a call that
  raised. So a run invokes summarization, analysis proposal, quiz generation and chat send
  at most once each. Sheet open, worksheet open and row append are invoked at most once by
  each call of \<open>save_to_google_sheet\<close>, which makes no call after one that raised; a run
  calls it at most twice, once to log the analysis and once to log the chat, hence invokes
  each of the three at most twice.
\<close>

theorem no_retry:
  "(\<exists>a b c d.
      calls (snd (main env u ss)) = a @ b @ c @ d
      \<and> prefix (operations a) [Setup, Setup, Summarization]
      \<and> prefix (operations b)
           [Setup, Setup, AnalysisProposal, Setup, SheetOpen, WorksheetOpen, RowAppend]
      \<and> prefix (operations c) [Setup, Setup, QuizGeneration]
      \<and> prefix (operations d)
           [Setup, Setup, Setup, ChatSend, Setup, SheetOpen, WorksheetOpen, RowAppend]
      \<and> failures (butlast a) = [] \<and> failures (butlast b) = []
      \<and> failures (butlast c) = [] \<and> failures (butlast d) = [])
   \<and> invocations Summarization (calls (snd (main env u ss))) \<le> 1
   \<and> invocations AnalysisProposal (calls (snd (main env u ss))) \<le> 1
   \<and> invocations QuizGeneration (calls (snd (main env u ss))) \<le> 1
   \<and> invocations ChatSend (calls (snd (main env u ss))) \<le> 1
   \<and> invocations SheetOpen (calls (snd (main env u ss))) \<le> 2
   \<and> invocations WorksheetOpen (calls (snd (main env u ss))) \<le> 2
   \<and> invocations RowAppend (calls (snd (main env u ss))) \<le> 2
   \<and> (\<exists>new.
        calls (snd (save_to_google_sheet env data sheet_name worksheet_name cred s))
          = calls s @ new
        \<and> prefix (operations new) [Setup, SheetOpen, WorksheetOpen, RowAppend]
        \<and> failures (butlast new) = []
        \<and> invocations SheetOpen new \<le> 1
        \<and> invocations WorksheetOpen new \<le> 1
        \<and> invocations RowAppend new \<le> 1)"
proof -
  from main_effect [OF surjective_pairing, of env u ss] obtain a b c d where
    log: "calls (snd (main env u ss)) = a @ b @ c @ d"
    and a: "prefix (operations a) [Setup, Setup, Summarization]"
    and b: "prefix (operations b)
              [Setup, Setup, AnalysisProposal, Setup, SheetOpen, WorksheetOpen, RowAppend]"
    and c: "prefix (operations c) [Setup, Setup, QuizGeneration]"
    and d: "prefix (operations d)
              [Setup, Setup, Setup, ChatSend, Setup, SheetOpen, WorksheetOpen, RowAppend]"
    and f: "failures (butlast a) = []" "failures (butlast b) = []"
      "failures (butlast c) = []" "failures (butlast d) = []"
    by blast
  have parts: "\<exists>a b c d.
      calls (snd (main env u ss)) = a @ b @ c @ d
      \<and> prefix (operations a) [Setup, Setup, Summarization]
      \<and> prefix (operations b)
           [Setup, Setup, AnalysisProposal, Setup, SheetOpen, WorksheetOpen, RowAppend]
      \<and> prefix (operations c) [Setup, Setup, QuizGeneration]
      \<and> prefix (operations d)
           [Setup, Setup, Setup, ChatSend, Setup, SheetOpen, WorksheetOpen, RowAppend]
      \<and> failures (butlast a) = [] \<and> failures (butlast b) = []
      \<and> failures (butlast c) = [] \<and> failures (butlast d) = []"
    using log a b c d f by blast
  have bound: "invocations k (calls (snd (main env u ss)))
      \<le> length (filter (\<lambda>o'. o' = k) [Setup, Setup, Summarization])
        + length (filter (\<lambda>o'. o' = k)
            [Setup, Setup, AnalysisProposal, Setup, SheetOpen, WorksheetOpen, RowAppend])
        + length (filter (\<lambda>o'. o' = k) [Setup, Setup, QuizGeneration])
        + length (filter (\<lambda>o'. o' = k)
            [Setup, Setup, Setup, ChatSend, Setup, SheetOpen, WorksheetOpen, RowAppend])"
    for k
    using invocations_prefix [OF a, of k] invocations_prefix [OF b, of k]
      invocations_prefix [OF c, of k] invocations_prefix [OF d, of k]
    by (simp add: log)
  from save_effect
    [OF surjective_pairing, of env data sheet_name worksheet_name cred s]
  obtain new where
    n: "calls (snd (save_to_google_sheet env data sheet_name worksheet_name cred s))
          = calls s @ new"
    "prefix (operations new) [Setup, SheetOpen, WorksheetOpen, RowAppend]"
    "failures (butlast new) = []"
    by blast
  have save: "\<exists>new.
        calls (snd (save_to_google_sheet env data sheet_name worksheet_name cred s))
          = calls s @ new
        \<and> prefix (operations new) [Setup, SheetOpen, WorksheetOpen, RowAppend]
        \<and> failures (butlast new) = []
        \<and> invocations SheetOpen new \<le> 1
        \<and> invocations WorksheetOpen new \<le> 1
        \<and> invocations RowAppend new \<le> 1"
    using n invocations_prefix [OF n(2), of SheetOpen]
      invocations_prefix [OF n(2), of WorksheetOpen]
      invocations_prefix [OF n(2), of RowAppend]
    by (intro exI [of _ new]) simp
  show ?thesis
    using parts save bound [of Summarization] bound [of AnalysisProposal]
      bound [of QuizGeneration] bound [of ChatSend] bound [of SheetOpen]
      bound [of WorksheetOpen] bound [of RowAppend]
    by simp
qed

section \<open>Which exceptions the handlers catch\<close>

text \<open>The histories that runs build are readable, so the loop of lines 127-129 does not raise.\<close>

lemma readable_kept:
  assumes "main env u ss = (r, s')" and "readable (chat_history (init_session ss))"
  shows "readable (chat_history s')"
proof -
  from main_effect [OF assms(1)] obtain d where
    "chat_history s' = chat_history (init_session ss)
       @ concat (map (exchange_turns (user_question u))
                   (chat_responses d))"
    by blast
  with assms(2) show ?thesis
    by (induction "chat_responses d")
      (auto simp: readable_def user_turn_def model_turn_def exchange_turns_def list_all_iff
        split: sum.splits)
qed

lemma readable_fresh: "readable (chat_history (init_session fresh))"
  by (simp add: readable_def init_session_def fresh_def)

text \<open>Where an exception that ends a run comes from.\<close>

lemma document_tools_raises:
  assumes "document_tools env u s = (Inl e, s')"
  shows "user_question u \<noteq> [] \<and> document_content s \<noteq> []"
proof -
  have doc: "document_content s \<noteq> []"
    using document_tools_effect [OF assms] by auto
  obtain r3 s3 where a: "propose_analysis env u s = (r3, s3)"
    by (cases "propose_analysis env u s")
  obtain r4 s4 where q: "generate_quiz env u s3 = (r4, s4)"
    by (cases "generate_quiz env u s3")
  have k: "ask_question env u s4 = (Inl e, s')"
    using assms doc a q propose_analysis_effect [OF a, where q = "[]"]
      generate_quiz_effect [OF q, where q = "[]"]
    by (simp add: document_tools_def bnd_def)
  then have "user_question u \<noteq> []"
    by (auto simp: ask_question_def prog_defs)
  with doc show ?thesis by simp
qed

lemma main_raises_question:
  assumes "main env u ss = (Inl e, s')"
  shows "(\<exists>f. credentials_file u = Some f \<and> json_load env (getvalue f) = Inl e)
       \<or> (\<exists>f. uploaded_file u = Some f \<and> get_file_content env f = Inl e)
       \<or> (user_question u \<noteq> [] \<and> document_content s' \<noteq> [])"
  using assms
proof (cases rule: main_steps)
  case no_key
  then show ?thesis by simp
next
  case (bad_credentials e')
  have "\<exists>f. credentials_file u = Some f \<and> json_load env (getvalue f) = Inl e'"
    using load_credentials_effect [OF bad_credentials(2)] by blast
  with bad_credentials(3) show ?thesis by simp
next
  case (bad_file s1 e')
  have "\<exists>f. uploaded_file u = Some f \<and> get_file_content env f = Inl e'"
    using process_upload_effect [OF bad_file(3), where q = "[]"] by blast
  with bad_file(4) show ?thesis by simp
next
  case (tools s1 s2)
  have "document_content s' = document_content s2"
    using document_tools_effect [OF tools(4)] by simp
  with document_tools_raises [OF tools(4)] show ?thesis by simp
qed


lemma main_bad_json:
  assumes "main env u ss = (r, s')" and "gemini_api_key_input u \<noteq> []"
    and "credentials_file u = Some f" and "json_load env (getvalue f) = Inl e"
  shows "r = Inl e"
proof -
  obtain r1 s1 where l: "load_credentials env u (started u ss) = (r1, s1)"
    by (cases "load_credentials env u (started u ss)")
  have r1: "r1 = Inl e"
    using load_credentials_effect [OF l] assms(3,4) by blast
  from assms(1) show ?thesis
  proof (cases rule: main_steps)
    case no_key
    with assms(2) show ?thesis by simp
  next
    case (bad_credentials e')
    with l r1 show ?thesis by simp
  next
    case (bad_file s1' e')
    with l r1 show ?thesis by simp
  next
    case (tools s1' s2)
    with l r1 show ?thesis by simp
  qed
qed

lemma main_bad_file:
  assumes "main env u ss = (r, s')" and "gemini_api_key_input u \<noteq> []"
    and "\<forall>g x. credentials_file u = Some g \<longrightarrow> json_load env (getvalue g) \<noteq> Inl x"
    and "uploaded_file u = Some f" and "document_content (init_session ss) = []"
    and "get_file_content env f = Inl e"
  shows "r = Inl e"
proof -
  obtain r1 s1 where l: "load_credentials env u (started u ss) = (r1, s1)"
    by (cases "load_credentials env u (started u ss)")
  note le = load_credentials_effect [OF l]
  have r1: "r1 = Inr ()"
  proof (cases r1)
    case (Inl x)
    with le assms(3) show ?thesis by blast
  next
    case (Inr y)
    then show ?thesis by simp
  qed
  have d1: "document_content s1 = []"
    using le assms(5) by simp
  obtain r2 s2 where p: "process_upload env u s1 = (r2, s2)"
    by (cases "process_upload env u s1")
  have r2: "r2 = Inl e"
    using process_upload_effect [OF p, where q = "[]"] assms(4,6) d1 by blast
  from assms(1) show ?thesis
  proof (cases rule: main_steps)
    case no_key
    with assms(2) show ?thesis by simp
  next
    case (bad_credentials e')
    with l r1 show ?thesis by simp
  next
    case (bad_file s1' e')
    with l r1 p r2 show ?thesis by simp
  next
    case (tools s1' s2')
    with l r1 p r2 show ?thesis by simp
  qed
qed

lemma main_raises_origin:
  assumes "main env u ss = (Inl e, s')" and "readable (chat_history (init_session ss))"
  shows "(\<exists>f. credentials_file u = Some f \<and> json_load env (getvalue f) = Inl e)
       \<or> (\<exists>f. uploaded_file u = Some f \<and> get_file_content env f = Inl e)
       \<or> (calls s' \<noteq> [] \<and> (\<exists>c. last (calls s') = (c, Inl e) \<and> chat_setup c))"
proof -
  from main_effect [OF assms(1)] have
    "\<forall>x. (Inl e :: exn + unit) = Inl x \<and> readable (chat_history (init_session ss)) \<longrightarrow>
       (\<exists>f. credentials_file u = Some f \<and> json_load env (getvalue f) = Inl x)
       \<or> (\<exists>f. uploaded_file u = Some f \<and> get_file_content env f = Inl x)
       \<or> (calls s' \<noteq> [] \<and> (\<exists>c. last (calls s') = (c, Inl x) \<and> chat_setup c))"
    by (elim exE conjE) assumption
  with assms(2) show ?thesis by blast
qed

lemma main_caught:
  assumes "main env u ss = (r, s')"
  shows "caught r (calls s') (display s')"
  using main_effect [OF assms] by (elim exE conjE) assumption

text \<open>
  A credentials file that is not valid JSON: line 60 is in no try block, so the exception
  of the parser ends the run, and the page shows no error box.
\<close>

theorem bad_credentials_uncaught:
  "main bad_json_env visit fresh =
     (Inl (Exception ''Expecting value''),
      \<lparr>gemini_api_key = ''k'', chat_history = [], document_content = [],
       google_sheet_credentials = JNull,
       display = [Title ''Chatbot for Document Q&A and Statistical Analysis'',
                  Success ''Gemini API Key set!'',
                  Sidebar_subheader ''Google Sheet Integration''],
       calls = []\<rparr>)"
  by (simp add: run_defs example_defs)

text \<open>
  Claim C4, amended. In a run that finds a readable history: every remote call that raised
  (model construction before a summary, an analysis proposal or a quiz; summarization,
  analysis-proposal and quiz generation; chat send; the steps of the spreadsheet append)
  has its message displayed in an error box, unless it is the exception that ended the run.
  Credentials-JSON parsing and file-content extraction have no handler: an exception they
  raise ends the run. A run ends with an exception only so: by the JSON parser, by the
  extraction of the file, or, in a run with a question and a stored document, by the last
  call of the log, one of those that set the chat up.
\<close>

theorem handlers_catch:
  assumes "main env u ss = (r, s')" and "readable (chat_history (init_session ss))"
  shows "caught r (calls s') (display s')
     \<and> (\<forall>e. r = Inl e \<longrightarrow>
           (\<exists>f. credentials_file u = Some f \<and> json_load env (getvalue f) = Inl e)
           \<or> (\<exists>f. uploaded_file u = Some f \<and> get_file_content env f = Inl e)
           \<or> (user_question u \<noteq> [] \<and> document_content s' \<noteq> [] \<and> calls s' \<noteq> []
               \<and> (\<exists>c. last (calls s') = (c, Inl e) \<and> chat_setup c)))
     \<and> (\<forall>f e. gemini_api_key_input u \<noteq> [] \<and> credentials_file u = Some f
              \<and> json_load env (getvalue f) = Inl e \<longrightarrow> r = Inl e)
     \<and> (\<forall>f e. gemini_api_key_input u \<noteq> []
              \<and> (\<forall>g x. credentials_file u = Some g \<longrightarrow> json_load env (getvalue g) \<noteq> Inl x)
              \<and> uploaded_file u = Some f \<and> document_content (init_session ss) = []
              \<and> get_file_content env f = Inl e \<longrightarrow> r = Inl e)"
proof (intro conjI allI impI)
  show "caught r (calls s') (display s')"
    using assms(1) by (rule main_caught)
next
  fix e
  assume r: "r = Inl e"
  from main_raises_origin [OF assms(1) [unfolded r] assms(2)]
    main_raises_question [OF assms(1) [unfolded r]]
  show "(\<exists>f. credentials_file u = Some f \<and> json_load env (getvalue f) = Inl e)
           \<or> (\<exists>f. uploaded_file u = Some f \<and> get_file_content env f = Inl e)
           \<or> (user_question u \<noteq> [] \<and> document_content s' \<noteq> [] \<and> calls s' \<noteq> []
               \<and> (\<exists>c. last (calls s') = (c, Inl e) \<and> chat_setup c))"
    by blast
next
  fix f e
  assume "gemini_api_key_input u \<noteq> [] \<and> credentials_file u = Some f
              \<and> json_load env (getvalue f) = Inl e"
  then show "r = Inl e"
    using main_bad_json [OF assms(1)] by blast
next
  fix f e
  assume "gemini_api_key_input u \<noteq> []
              \<and> (\<forall>g x. credentials_file u = Some g \<longrightarrow> json_load env (getvalue g) \<noteq> Inl x)
              \<and> uploaded_file u = Some f \<and> document_content (init_session ss) = []
              \<and> get_file_content env f = Inl e"
  then show "r = Inl e"
    using main_bad_file [OF assms(1), of f e] by blast
qed

text \<open>The first visit when the summarization request, the third remote call, raises.\<close>

lemma summary_fails:
  "main (fail_at 2) visit fresh =
     (Inr (),
      \<lparr>gemini_api_key = ''k'', chat_history = [], document_content = ''hello'',
       google_sheet_credentials = key_json,
       display =
         [Title ''Chatbot for Document Q&A and Statistical Analysis'',
          Success ''Gemini API Key set!'',
          Sidebar_subheader ''Google Sheet Integration'',
          Sidebar_success ''Google Sheet credentials loaded!'',
          Spinner ''Processing file...'',
          Error ''Error summarizing document: boom'',
          Subheader ''Ask a question about the document or statistical analysis:''],
       calls =
         [(Configure ''k'', Inr Done),
          (NewModel ''gemini-pro'', Inr (GotModel (Model 0))),
          (GenerateContent (summary_prompt ''hello''), Inl (Exception ''boom''))]\<rparr>)"
  by (simp add: run_defs example_defs py_in_sublist)

theorem handlers_catch_witness:
  "readable (chat_history (init_session fresh))
   \<and> fst (main (fail_at 2) visit fresh) = Inr ()
   \<and> (\<exists>p. Error (p @ ''boom'') \<in> set (display (snd (main (fail_at 2) visit fresh))))
   \<and> fst (main bad_json_env visit fresh) = Inl (Exception ''Expecting value'')
   \<and> fst (main bad_utf8_env visit fresh) = Inl (Exception ''invalid start byte'')"
proof -
  note catch = handlers_catch [OF surjective_pairing readable_fresh]
  have "caught (fst (main (fail_at 2) visit fresh)) (calls (snd (main (fail_at 2) visit fresh)))
          (display (snd (main (fail_at 2) visit fresh)))"
    using catch [of "fail_at 2" visit] by blast
  then have a: "\<exists>p. Error (p @ ''boom'') \<in> set (display (snd (main (fail_at 2) visit fresh)))"
    by (simp add: summary_fails)
  have v: "gemini_api_key_input visit \<noteq> []" "credentials_file visit = Some key_file"
    "uploaded_file visit = Some notes_txt" "document_content (init_session fresh) = []"
    by (simp_all add: visit_def init_session_def fresh_def)
  have j: "json_load bad_json_env (getvalue key_file) = Inl (Exception ''Expecting value'')"
    by (simp add: bad_json_env_def ok_env_def)
  have b: "fst (main bad_json_env visit fresh) = Inl (Exception ''Expecting value'')"
    using catch [of bad_json_env visit] v j by blast
  have k: "\<forall>g x. credentials_file visit = Some g \<longrightarrow> json_load bad_utf8_env (getvalue g) \<noteq> Inl x"
    by (simp add: bad_utf8_env_def ok_env_def)
  have g: "get_file_content bad_utf8_env notes_txt = Inl (Exception ''invalid start byte'')"
    by (simp add: get_file_content_def notes_txt_def bad_utf8_env_def ok_env_def)
  have c: "fst (main bad_utf8_env visit fresh) = Inl (Exception ''invalid start byte'')"
    using catch [of bad_utf8_env visit] v k g by blast
  show ?thesis
    using readable_fresh a b c by (simp add: summary_fails)
qed

section \<open>Logging to the spreadsheet\<close>

text \<open>
  With a file in the uploader the logging is as specified: once the proposal is generated,
  its text read and displayed, \<open>save_to_google_sheet\<close> is called exactly when the credentials are
  truthy and the two names are non-empty.
\<close>

lemma analysis_logged_with_file:
  assumes "propose_button u" and "uploaded_file u = Some f"
    and "configure env (length (calls s)) (gemini_api_key s) = Inr ()"
    and "GenerativeModel env (Suc (length (calls s))) ''gemini-pro'' = Inr m"
    and "generate_content env (Suc (Suc (length (calls s)))) m
           (analysis_prompt (document_content s)) = Inr resp"
    and "text resp = Inr proposals"
  shows "propose_analysis env u s =
     (let shown = s\<lparr>calls := calls s @
                     [(Configure (gemini_api_key s), Inr Done),
                      (NewModel ''gemini-pro'', Inr (GotModel m)),
                      (GenerateContent (analysis_prompt (document_content s)),
                       Inr (GotResponse resp))],
                   display := display s @
                     [Spinner ''Generating statistical analysis proposals...'',
                      Subheader ''Statistical Analysis Proposals:'',
                      Write proposals]\<rparr>
      in if truthy (google_sheet_credentials s) \<and> google_sheet_name u \<noteq> []
            \<and> analysis_worksheet_name u \<noteq> []
         then save_to_google_sheet env [name f, ''Analysis Proposal'', proposals]
                (google_sheet_name u) (analysis_worksheet_name u)
                (google_sheet_credentials s) shown
         else (Inr (), shown))"
proof -
  have never: "save_to_google_sheet env d sn wn cred t \<noteq> (Inl x, t')" for d sn wn cred t x t'
    using save_effect [of env d sn wn cred t "Inl x" t'] by auto
  show ?thesis
    using assms
    by (auto simp: propose_analysis_def get_gemini_model_def attr_name_def prog_defs Let_def
        never split: prod.splits sum.splits)
qed

text \<open>
  Claim C5 fails on the code. On the session of the first visit, with the credentials
  loaded and the sheet and worksheet names filled in, but with the uploader emptied since:
  the analysis proposal is generated and displayed, then \<open>uploaded_file.name\<close> raises
  before \<open>save_to_google_sheet\<close> is called, so no row is appended and the page reports an
  error of the generation; likewise the chat exchange succeeds and is added to the history,
  no row is appended, and the page reports an error of the communication.
\<close>

theorem logging_skipped_without_file:
  "truthy (google_sheet_credentials (init_session visited))
   \<and> google_sheet_name (visit\<lparr>uploaded_file := None, propose_button := True\<rparr>) = ''Log''
   \<and> analysis_worksheet_name (visit\<lparr>uploaded_file := None, propose_button := True\<rparr>)
       = ''Analysis''
   \<and> main ok_env (visit\<lparr>uploaded_file := None, propose_button := True\<rparr>) visited =
     (Inr (),
      \<lparr>gemini_api_key = ''k'', chat_history = [], document_content = ''hello'',
       google_sheet_credentials = key_json,
       display =
         [Title ''Chatbot for Document Q&A and Statistical Analysis'',
          Success ''Gemini API Key set!'',
          Sidebar_subheader ''Google Sheet Integration'',
          Sidebar_success ''Google Sheet credentials loaded!'',
          Spinner ''Generating statistical analysis proposals...'',
          Subheader ''Statistical Analysis Proposals:'',
          Write ''generated'',
          Error (''Error generating statistical analysis proposals: '' @ no_name_message),
          Subheader ''Ask a question about the document or statistical analysis:''],
       calls =
         [(Configure ''k'', Inr Done),
          (NewModel ''gemini-pro'', Inr (GotModel (Model 0))),
          (GenerateContent (analysis_prompt ''hello''),
           Inr (GotResponse \<lparr>text = Inr ''generated''\<rparr>))]\<rparr>)
   \<and> questions_worksheet_name (visit\<lparr>uploaded_file := None, user_question := ''why?''\<rparr>)
       = ''Questions''
   \<and> main ok_env (visit\<lparr>uploaded_file := None, user_question := ''why?''\<rparr>) visited =
     (Inr (),
      \<lparr>gemini_api_key = ''k'',
       chat_history = [user_turn ''why?'', model_turn ''reply''],
       document_content = ''hello'',
       google_sheet_credentials = key_json,
       display =
         [Title ''Chatbot for Document Q&A and Statistical Analysis'',
          Success ''Gemini API Key set!'',
          Sidebar_subheader ''Google Sheet Integration'',
          Sidebar_success ''Google Sheet credentials loaded!'',
          Subheader ''Ask a question about the document or statistical analysis:'',
          Error (''Error communicating with Gemini: '' @ no_name_message),
          Chat_message ''user'', Markdown ''why?'',
          Chat_message ''model'', Markdown ''reply''],
       calls =
         [(Configure ''k'', Inr Done),
          (NewModel ''gemini-pro'', Inr (GotModel (Model 0))),
          (StartChat [], Inr (GotChat (Chat 0))),
          (SendMessage (chat_prompt ''hello'' ''why?''),
           Inr (GotResponse \<lparr>text = Inr ''reply''\<rparr>))]\<rparr>)"
  by (simp add: visited_eq run_defs example_defs user_turn_def model_turn_def)

section \<open>Uploading a document\<close>

lemma requests_append [simp]:
  "requests k (a @ b) = requests k a @ requests k b"
  by (simp add: requests_def)

lemma requests_none:
  "invocations k evs = 0 \<Longrightarrow> requests k evs = []"
  by (simp add: invocations_def requests_def)

lemma init_stored [simp]:
  "document_content (init_session (stored s)) = document_content s"
  "chat_history (init_session (stored s)) = chat_history s"
  "gemini_api_key (init_session (stored s)) = gemini_api_key s"
  "google_sheet_credentials (init_session (stored s)) = google_sheet_credentials s"
  by (simp_all add: init_session_def stored_def)

text \<open>What lines 72-84 do with a file when no document is stored yet.\<close>

lemma process_upload_unsupported:
  assumes "uploaded_file u = Some f" and "document_content s = []"
    and "get_file_content env f = Inr ''Unsupported file type.''"
  shows "process_upload env u s =
     (Inr (),
      s\<lparr>document_content := ''Unsupported file type.'',
        display := display s @ [Spinner ''Processing file...'',
                                Error ''Unsupported file type.'']\<rparr>)"
  using assms by (simp add: process_upload_def prog_defs)

lemma process_upload_summary:
  assumes "uploaded_file u = Some f" and "document_content s = []"
    and "get_file_content env f = Inr content" and "content \<noteq> ''Unsupported file type.''"
    and "configure env (length (calls s)) (gemini_api_key s) = Inr ()"
    and "GenerativeModel env (Suc (length (calls s))) ''gemini-pro'' = Inr m"
  shows "process_upload env u s =
     (Inr (),
      s\<lparr>document_content := content,
        calls := calls s @
          [(Configure (gemini_api_key s), Inr Done),
           (NewModel ''gemini-pro'', Inr (GotModel m)),
           (GenerateContent (summary_prompt content),
            case generate_content env (Suc (Suc (length (calls s)))) m (summary_prompt content)
            of Inl e \<Rightarrow> Inl e | Inr x \<Rightarrow> Inr (GotResponse x))],
        display := display s @
          Spinner ''Processing file...'' #
          (case generate_content env (Suc (Suc (length (calls s)))) m (summary_prompt content)
           of Inl e \<Rightarrow> [Error (''Error summarizing document: '' @ message e)]
            | Inr x \<Rightarrow>
                (case text x of
                   Inl e \<Rightarrow> [Subheader ''Document Summary:'',
                             Error (''Error summarizing document: '' @ message e)]
                 | Inr t \<Rightarrow> [Subheader ''Document Summary:'', Write t]))\<rparr>)"
  using assms
  by (simp add: process_upload_def get_gemini_model_def prog_defs Let_def split: sum.splits)

lemma process_upload_stores:
  assumes "uploaded_file u = Some f" and "document_content s = []"
    and "get_file_content env f = Inr content"
  shows "fst (process_upload env u s) = Inr ()
     \<and> document_content (snd (process_upload env u s)) = content"
  using assms
  by (simp add: process_upload_def get_gemini_model_def prog_defs Let_def split: sum.splits)

text \<open>The states of a run that gets to the uploaded file.\<close>

lemma main_reaches_upload:
  assumes "main env u ss = (r, s')" and "gemini_api_key_input u \<noteq> []"
    and "\<forall>g x. credentials_file u = Some g \<longrightarrow> json_load env (getvalue g) \<noteq> Inl x"
    and "uploaded_file u = Some f" and "document_content (init_session ss) = []"
    and "get_file_content env f = Inr content"
  obtains s1 where "load_credentials env u (started u ss) = (Inr (), s1)"
    "document_tools env u (snd (process_upload env u s1)) = (r, s')"
    "document_content s1 = []" "calls s1 = []" "gemini_api_key s1 = gemini_api_key_input u"
    "Subheader ''Document Summary:'' \<notin> set (display s1)"
  using assms(1)
proof (cases rule: main_steps)
  case no_key
  with assms(2) show ?thesis by simp
next
  case (bad_credentials e)
  have "\<exists>g. credentials_file u = Some g \<and> json_load env (getvalue g) = Inl e"
    using load_credentials_effect [OF bad_credentials(2)] by blast
  with assms(3) show ?thesis by blast
next
  case (bad_file s1 e)
  have "\<exists>g. uploaded_file u = Some g \<and> get_file_content env g = Inl e"
    using process_upload_effect [OF bad_file(3), where q = "[]"] by blast
  with assms(4,6) show ?thesis by simp
next
  case (tools s1 s2)
  note l = load_credentials_effect [OF tools(2)]
  have "document_content s1 = []" "calls s1 = []"
    "gemini_api_key s1 = gemini_api_key_input u"
    "Subheader ''Document Summary:'' \<notin> set (display s1)"
    using l assms(5) by auto
  with tools that show ?thesis by simp
qed

text \<open>After the upload, the tools send no summarization request and show no summary.\<close>

lemma tools_no_summary:
  assumes "document_tools env u s = (r, s')"
  shows "document_content s' = document_content s
     \<and> (\<exists>new sh. calls s' = calls s @ new \<and> display s' = display s @ sh
          \<and> requests Summarization new = []
          \<and> Subheader ''Document Summary:'' \<notin> set sh
          \<and> about (document_content s) (user_question u) new
          \<and> (document_content s \<noteq> [] \<longrightarrow>
               Subheader ''Ask a question about the document or statistical analysis:''
                 \<in> set sh))"
proof -
  from document_tools_effect [OF assms] obtain b c d sh where
    t: "document_content s' = document_content s"
    "calls s' = calls s @ b @ c @ d" "display s' = display s @ sh"
    "prefix (operations b)
       [Setup, Setup, AnalysisProposal, Setup, SheetOpen, WorksheetOpen, RowAppend]"
    "prefix (operations c) [Setup, Setup, QuizGeneration]"
    "prefix (operations d)
       [Setup, Setup, Setup, ChatSend, Setup, SheetOpen, WorksheetOpen, RowAppend]"
    "Subheader ''Document Summary:'' \<notin> set sh"
    "about (document_content s) (user_question u) (b @ c @ d)"
    "document_content s \<noteq> [] \<longrightarrow>
       Subheader ''Ask a question about the document or statistical analysis:'' \<in> set sh"
    by blast
  have "invocations Summarization (b @ c @ d) = 0"
    using invocations_prefix [OF t(4), of Summarization]
      invocations_prefix [OF t(5), of Summarization]
      invocations_prefix [OF t(6), of Summarization]
    by simp
  then have "requests Summarization (b @ c @ d) = []"
    by (rule requests_none)
  with t show ?thesis
    by (intro conjI exI [of _ "b @ c @ d"] exI [of _ sh]) simp_all
qed

text \<open>
  Claim C6. In a run with an API key whose credentials file, if any, parses: when a file is
  uploaded, no document is stored yet and the extraction returns a content, that content is
  the stored document when the run ends. If it is not the unsupported-file marker and the
  model is constructed (the first two remote calls of the run), the run sends exactly one
  summarization request, the third remote call, whose prompt is "Summarize the following
  document:", two newlines and the content; when the request returns a response whose text
  can be read, the page shows the heading "Document Summary:" followed by that text. (When
  the response holds no text, reading it raises after the heading is shown, and the heading
  is followed by the error message.) If the content is the marker, no summarization request
  is sent and no summary is shown.
\<close>

theorem upload_summarized:
  assumes "main env u ss = (r, s')" and "gemini_api_key_input u \<noteq> []"
    and "\<forall>g x. credentials_file u = Some g \<longrightarrow> json_load env (getvalue g) \<noteq> Inl x"
    and "uploaded_file u = Some f" and "document_content (init_session ss) = []"
    and "get_file_content env f = Inr content"
  shows "document_content s' = content
     \<and> summary_prompt content
         = ''Summarize the following document:'' @ [CHR 0x0A, CHR 0x0A] @ content
     \<and> (content \<noteq> ''Unsupported file type.''
          \<and> configure env 0 (gemini_api_key_input u) = Inr ()
          \<and> GenerativeModel env 1 ''gemini-pro'' = Inr m \<longrightarrow>
          requests Summarization (calls s')
            = [(GenerateContent (summary_prompt content),
                case generate_content env 2 m (summary_prompt content)
                of Inl e \<Rightarrow> Inl e | Inr x \<Rightarrow> Inr (GotResponse x))]
          \<and> (\<forall>resp t. generate_content env 2 m (summary_prompt content) = Inr resp
                \<and> text resp = Inr t \<longrightarrow>
                (\<exists>pre post. display s'
                   = pre @ [Subheader ''Document Summary:'', Write t] @ post))
          \<and> (\<forall>resp e. generate_content env 2 m (summary_prompt content) = Inr resp
                \<and> text resp = Inl e \<longrightarrow>
                (\<exists>pre post. display s'
                   = pre @ [Subheader ''Document Summary:'',
                            Error (''Error summarizing document: '' @ message e)] @ post)))
     \<and> (content = ''Unsupported file type.'' \<longrightarrow>
          requests Summarization (calls s') = []
          \<and> Subheader ''Document Summary:'' \<notin> set (display s'))"
  using assms
proof (cases rule: main_reaches_upload)
  case (1 s1)
  let ?s2 = "snd (process_upload env u s1)"
  from tools_no_summary [OF 1(2)] obtain new sh where
    t: "document_content s' = document_content ?s2"
    "calls s' = calls ?s2 @ new" "display s' = display ?s2 @ sh"
    "requests Summarization new = []" "Subheader ''Document Summary:'' \<notin> set sh"
    by blast
  have stored: "document_content s' = content"
    using process_upload_stores [OF assms(4) 1(3) assms(6)] t(1) by simp
  have prompt: "summary_prompt content
      = ''Summarize the following document:'' @ [CHR 0x0A, CHR 0x0A] @ content"
    by (simp add: summary_prompt_def newline_def)
  have sent: "requests Summarization (calls s')
            = [(GenerateContent (summary_prompt content),
                case generate_content env 2 m (summary_prompt content)
                of Inl e \<Rightarrow> Inl e | Inr x \<Rightarrow> Inr (GotResponse x))]
          \<and> (\<forall>resp t. generate_content env 2 m (summary_prompt content) = Inr resp
                \<and> text resp = Inr t \<longrightarrow>
                (\<exists>pre post. display s'
                   = pre @ [Subheader ''Document Summary:'', Write t] @ post))
          \<and> (\<forall>resp e. generate_content env 2 m (summary_prompt content) = Inr resp
                \<and> text resp = Inl e \<longrightarrow>
                (\<exists>pre post. display s'
                   = pre @ [Subheader ''Document Summary:'',
                            Error (''Error summarizing document: '' @ message e)] @ post))"
    if c: "content \<noteq> ''Unsupported file type.''"
      and k: "configure env 0 (gemini_api_key_input u) = Inr ()"
      and g: "GenerativeModel env 1 ''gemini-pro'' = Inr m"
  proof -
    have k': "configure env (length (calls s1)) (gemini_api_key s1) = Inr ()"
      using k 1(4,5) by simp
    have g': "GenerativeModel env (Suc (length (calls s1))) ''gemini-pro'' = Inr m"
      using g 1(4) by simp
    note p = process_upload_summary [OF assms(4) 1(3) assms(6) c k' g']
    have calls2: "calls ?s2 =
        [(Configure (gemini_api_key s1), Inr Done),
         (NewModel ''gemini-pro'', Inr (GotModel m)),
         (GenerateContent (summary_prompt content),
          case generate_content env 2 m (summary_prompt content)
          of Inl e \<Rightarrow> Inl e | Inr x \<Rightarrow> Inr (GotResponse x))]"
      using p 1(4) by (simp add: numeral_2_eq_2)
    have req: "requests Summarization (calls s')
            = [(GenerateContent (summary_prompt content),
                case generate_content env 2 m (summary_prompt content)
                of Inl e \<Rightarrow> Inl e | Inr x \<Rightarrow> Inr (GotResponse x))]"
    proof -
      have "requests Summarization (calls ?s2)
            = [(GenerateContent (summary_prompt content),
                case generate_content env 2 m (summary_prompt content)
                of Inl e \<Rightarrow> Inl e | Inr x \<Rightarrow> Inr (GotResponse x))]"
        unfolding calls2 by (simp add: requests_def)
      then show ?thesis
        by (simp add: t(2,4))
    qed
    have shown: "\<exists>pre post. display s'
                   = pre @ [Subheader ''Document Summary:'', Write t] @ post"
      if "generate_content env 2 m (summary_prompt content) = Inr resp" "text resp = Inr t"
      for resp t
    proof -
      have "display ?s2 = (display s1 @ [Spinner ''Processing file...''])
              @ [Subheader ''Document Summary:'', Write t]"
        using p that 1(4) by (simp add: numeral_2_eq_2)
      then have "display s' = (display s1 @ [Spinner ''Processing file...''])
              @ [Subheader ''Document Summary:'', Write t] @ sh"
        using t(3) by simp
      then show ?thesis by blast
    qed
    have failed: "\<exists>pre post. display s'
                   = pre @ [Subheader ''Document Summary:'',
                            Error (''Error summarizing document: '' @ message e)] @ post"
      if "generate_content env 2 m (summary_prompt content) = Inr resp" "text resp = Inl e"
      for resp e
    proof -
      have "display ?s2 = (display s1 @ [Spinner ''Processing file...''])
              @ [Subheader ''Document Summary:'',
                 Error (''Error summarizing document: '' @ message e)]"
        using p that 1(4) by (simp add: numeral_2_eq_2)
      then have "display s' = (display s1 @ [Spinner ''Processing file...''])
              @ [Subheader ''Document Summary:'',
                 Error (''Error summarizing document: '' @ message e)] @ sh"
        using t(3) by simp
      then show ?thesis by blast
    qed
    from req shown failed show ?thesis by blast
  qed
  have unsupported: "requests Summarization (calls s') = []
          \<and> Subheader ''Document Summary:'' \<notin> set (display s')"
    if c: "content = ''Unsupported file type.''"
  proof -
    note p = process_upload_unsupported [OF assms(4) 1(3) assms(6) [unfolded c]]
    have "requests Summarization (calls ?s2) = []"
      using p 1(4) by (simp add: requests_def)
    then show ?thesis
      using p t 1(6) by simp
  qed
  from stored prompt sent unsupported show ?thesis by blast
qed

theorem upload_summarized_witness:
  "gemini_api_key_input visit = ''k''
   \<and> uploaded_file visit = Some notes_txt
   \<and> document_content (init_session fresh) = []
   \<and> get_file_content ok_env notes_txt = Inr ''hello''
   \<and> document_content (snd (main ok_env visit fresh)) = ''hello''
   \<and> requests Summarization (calls (snd (main ok_env visit fresh)))
       = [(GenerateContent (summary_prompt ''hello''),
           Inr (GotResponse \<lparr>text = Inr ''generated''\<rparr>))]
   \<and> (\<exists>pre post. display (snd (main ok_env visit fresh))
         = pre @ [Subheader ''Document Summary:'', Write ''generated''] @ post)
   \<and> (\<exists>pre post. display (snd (main blocked_env visit fresh))
         = pre @ [Subheader ''Document Summary:'',
                  Error ''Error summarizing document: no valid Part''] @ post)
   \<and> get_file_content ok_env photo_png = Inr ''Unsupported file type.''
   \<and> requests Summarization
         (calls (snd (main ok_env (visit\<lparr>uploaded_file := Some photo_png\<rparr>) fresh))) = []"
proof -
  have k: "gemini_api_key_input visit \<noteq> []"
    "gemini_api_key_input (visit\<lparr>uploaded_file := Some photo_png\<rparr>) \<noteq> []"
    by (simp_all add: visit_def)
  have c: "\<forall>g x. credentials_file visit = Some g \<longrightarrow> json_load ok_env (getvalue g) \<noteq> Inl x"
    "\<forall>g x. credentials_file (visit\<lparr>uploaded_file := Some photo_png\<rparr>) = Some g
       \<longrightarrow> json_load ok_env (getvalue g) \<noteq> Inl x"
    by (simp_all add: ok_env_def)
  have f: "uploaded_file visit = Some notes_txt"
    "uploaded_file (visit\<lparr>uploaded_file := Some photo_png\<rparr>) = Some photo_png"
    by (simp_all add: visit_def)
  have d: "document_content (init_session fresh) = []"
    by (simp add: init_session_def fresh_def)
  have g: "get_file_content ok_env notes_txt = Inr ''hello''"
    "get_file_content ok_env photo_png = Inr ''Unsupported file type.''"
    by (simp_all add: get_file_content_def notes_txt_def photo_png_def ok_env_def)
  have m: "configure ok_env 0 (gemini_api_key_input visit) = Inr ()"
    "GenerativeModel ok_env 1 ''gemini-pro'' = Inr (Model 0)"
    "generate_content ok_env 2 (Model 0) (summary_prompt ''hello'')
       = Inr \<lparr>text = Inr ''generated''\<rparr>"
    "text \<lparr>text = Inr ''generated''\<rparr> = Inr ''generated''"
    "gemini_api_key_input visit = ''k''"
    by (simp_all add: ok_env_def visit_def)
  have b: "\<forall>g x. credentials_file visit = Some g \<longrightarrow> json_load blocked_env (getvalue g) \<noteq> Inl x"
    "get_file_content blocked_env notes_txt = Inr ''hello''"
    "configure blocked_env 0 (gemini_api_key_input visit) = Inr ()"
    "GenerativeModel blocked_env 1 ''gemini-pro'' = Inr (Model 0)"
    "generate_content blocked_env 2 (Model 0) (summary_prompt ''hello'')
       = Inr \<lparr>text = Inl (Exception ''no valid Part'')\<rparr>"
    "text \<lparr>text = Inl (Exception ''no valid Part'')\<rparr> = Inl (Exception ''no valid Part'')"
    by (simp_all add: blocked_env_def ok_env_def get_file_content_def notes_txt_def)
  note ok = upload_summarized
    [OF surjective_pairing k(1) c(1) f(1) d g(1), where m = "Model 0"]
  note blocked = upload_summarized
    [OF surjective_pairing k(1) b(1) f(1) d b(2), where m = "Model 0"]
  note unsupported = upload_summarized
    [OF surjective_pairing k(2) c(2) f(2) d g(2), where m = "Model 0"]
  have stored: "document_content (snd (main ok_env visit fresh)) = ''hello''"
    using ok by blast
  have sent: "requests Summarization (calls (snd (main ok_env visit fresh)))
       = [(GenerateContent (summary_prompt ''hello''),
           Inr (GotResponse \<lparr>text = Inr ''generated''\<rparr>))]"
    using ok m by simp
  have shown: "\<exists>pre post. display (snd (main ok_env visit fresh))
         = pre @ [Subheader ''Document Summary:'', Write ''generated''] @ post"
    using ok m by blast
  have failed: "\<exists>pre post. display (snd (main blocked_env visit fresh))
         = pre @ [Subheader ''Document Summary:'',
                  Error (''Error summarizing document: ''
                         @ message (Exception ''no valid Part''))] @ post"
    using blocked b(3-6) by blast
  have none: "requests Summarization
         (calls (snd (main ok_env (visit\<lparr>uploaded_file := Some photo_png\<rparr>) fresh))) = []"
    using unsupported by simp
  show ?thesis
    using stored sent shown failed none f(1) d g m(5) by simp
qed

section \<open>An unsupported file\<close>







end
